theory Spec2Isabelle
  imports Main "HOL-Library.AList"
begin

section \<open>Python strings\<close>

text \<open>
  A Python \<open>str\<close> is modelled as a \<open>string\<close>; a \<open>char\<close> stands for a code point below 256.
  The text of a theme file (\<open>alacritty.toml\<close>) is the decoded content as Python's text
  mode returns it, universal newlines already translated. The destination file, which is
  read and written, is kept as it stands in the file, and \<open>translate_newlines\<close> is what
  reading it in text mode does. Writing is that of a platform whose line separator is the
  single character \<open>NL\<close>, as on the Linux desktop the tool is written for.
\<close>

abbreviation NL :: char where "NL \<equiv> CHR 0x0A"
abbreviation CR :: char where "CR \<equiv> CHR 0x0D"
abbreviation DQ :: char where "DQ \<equiv> CHR 0x22"
abbreviation SQ :: char where "SQ \<equiv> CHR 0x27"

text \<open>\<open>str.isspace\<close> on one character, which is also what \<open>\s\<close> matches in \<open>re\<close>.\<close>

definition isspace :: "char \<Rightarrow> bool" where
  "isspace c = (let n = (of_char c :: nat) in
     (9 \<le> n \<and> n \<le> 13) \<or> (28 \<le> n \<and> n \<le> 32) \<or> n = 133 \<or> n = 160)"

definition strip_with :: "(char \<Rightarrow> bool) \<Rightarrow> string \<Rightarrow> string" where
  "strip_with P s = rev (dropWhile P (rev (dropWhile P s)))"

text \<open>\<open>s.strip()\<close>\<close>

definition strip :: "string \<Rightarrow> string" where
  "strip s = strip_with isspace s"

definition isquote :: "char \<Rightarrow> bool" where
  "isquote c = (c = DQ \<or> c = SQ)"

text \<open>\<open>s.strip('"\'')\<close>\<close>

definition strip_quotes :: "string \<Rightarrow> string" where
  "strip_quotes s = strip_with isquote s"

text \<open>\<open>s.startswith(p)\<close>\<close>

definition startswith :: "string \<Rightarrow> string \<Rightarrow> bool" where
  "startswith s p = (take (length p) s = p)"

text \<open>\<open>s.endswith('\n')\<close>\<close>

definition endswith_nl :: "string \<Rightarrow> bool" where
  "endswith_nl s = (s \<noteq> [] \<and> last s = NL)"

text \<open>\<open>p in s\<close> for two strings\<close>

fun contains :: "string \<Rightarrow> string \<Rightarrow> bool" where
  "contains p [] = (p = [])"
| "contains p (c # cs) = (startswith (c # cs) p \<or> contains p cs)"

text \<open>\<open>s.split(d)\<close> for a one-character separator\<close>

fun split_on :: "char \<Rightarrow> string \<Rightarrow> string list" where
  "split_on d [] = [[]]"
| "split_on d (c # cs) =
     (if c = d then [] # split_on d cs
      else (case split_on d cs of
              [] \<Rightarrow> [[c]]
            | w # ws \<Rightarrow> (c # w) # ws))"

text \<open>\<open>f.readlines()\<close>: the lines of a text, each with its line end.\<close>

fun readlines :: "string \<Rightarrow> string list" where
  "readlines [] = []"
| "readlines (c # cs) =
     (if c = NL then [c] # readlines cs
      else (case readlines cs of
              [] \<Rightarrow> [[c]]
            | l # ls \<Rightarrow> (c # l) # ls))"

text \<open>
  Universal newlines, as \<open>open(path, 'r')\<close> applies them on reading: a carriage return
  followed by a newline, and a carriage return alone, are each read as one newline.
\<close>

fun translate_newlines :: "string \<Rightarrow> string" where
  "translate_newlines [] = []"
| "translate_newlines [c] = (if c = CR then [NL] else [c])"
| "translate_newlines (c # d # cs) =
     (if c = CR \<and> d = NL then NL # translate_newlines cs
      else if c = CR then NL # translate_newlines (d # cs)
      else c # translate_newlines (d # cs))"

section \<open>The two regular expressions\<close>

definition ishex :: "char \<Rightarrow> bool" where
  "ishex c = (c \<in> set ''0123456789abcdefABCDEF'')"

text \<open>\<open>([a-fA-F0-9]{6})\<close> at the start of \<open>s\<close>: the group it captures.\<close>

definition hex6 :: "string \<Rightarrow> string option" where
  "hex6 s = (if 6 \<le> length s \<and> list_all ishex (take 6 s) then Some (take 6 s) else None)"

text \<open>\<open>(?:#|0x)([a-fA-F0-9]{6})\<close> at the start of \<open>s\<close>.\<close>

definition color_at :: "string \<Rightarrow> string option" where
  "color_at s =
     (if startswith s ''#'' then hex6 (drop 1 s)
      else if startswith s ''0x'' then hex6 (drop 2 s)
      else None)"

text \<open>\<open>re.search(r'(?:#|0x)([a-fA-F0-9]{6})', s)\<close>: group 1 of the leftmost match.\<close>

fun hex_search :: "string \<Rightarrow> string option" where
  "hex_search [] = None"
| "hex_search (c # cs) =
     (case color_at (c # cs) of
        Some g \<Rightarrow> Some g
      | None \<Rightarrow> hex_search cs)"

text \<open>
  \<open>kw\s*=\s*["\']?(?:#|0x)([a-fA-F0-9]{6})["\']?\<close> at the start of \<open>s\<close>, for the keyword
  \<open>kw\<close>. No character class overlaps the token that follows it, so the greedy match is the
  only one.
\<close>

definition field_at :: "string \<Rightarrow> string \<Rightarrow> string option" where
  "field_at kw s =
     (if startswith s kw then
        (let r1 = dropWhile isspace (drop (length kw) s) in
         if startswith r1 ''='' then
           (let r2 = dropWhile isspace (drop 1 r1);
                r3 = (if r2 \<noteq> [] \<and> isquote (hd r2) then drop 1 r2 else r2)
            in color_at r3)
         else None)
      else None)"

text \<open>\<open>re.search\<close> of that pattern in \<open>s\<close>: group 1 of the leftmost match.\<close>

fun field_search :: "string \<Rightarrow> string \<Rightarrow> string option" where
  "field_search kw [] = None"
| "field_search kw (c # cs) =
     (case field_at kw (c # cs) of
        Some g \<Rightarrow> Some g
      | None \<Rightarrow> field_search kw cs)"

section \<open>parse_toml_colors\<close>

type_synonym dict = "(string \<times> string) list"

datatype toml_section = NoSection | Normal | Bright | Primary | Other

record scan_state =
  current_section :: toml_section
  normal_colors :: dict
  bright_colors :: dict
  primary_colors :: dict

definition scan_init :: scan_state where
  "scan_init = \<lparr>current_section = NoSection, normal_colors = [], bright_colors = [],
                primary_colors = []\<rparr>"

text \<open>\<open>key.split('.')[-1] if '.' in key else key\<close>\<close>

definition color_name :: "string \<Rightarrow> string" where
  "color_name key = (if CHR ''.'' \<in> set key then last (split_on (CHR ''.'') key) else key)"

definition store :: "scan_state \<Rightarrow> string \<Rightarrow> string \<Rightarrow> scan_state" where
  "store st k v =
     (case current_section st of
        Normal \<Rightarrow> st\<lparr>normal_colors := AList.update k v (normal_colors st)\<rparr>
      | Bright \<Rightarrow> st\<lparr>bright_colors := AList.update k v (bright_colors st)\<rparr>
      | Primary \<Rightarrow> st\<lparr>primary_colors := AList.update k v (primary_colors st)\<rparr>
      | _ \<Rightarrow> st)"

text \<open>One turn of the loop over \<open>content.split('\n')\<close>.\<close>

definition scan_line :: "scan_state \<Rightarrow> string \<Rightarrow> scan_state" where
  "scan_line st raw =
     (let line = strip raw in
      if startswith line ''[colors.normal]'' then st\<lparr>current_section := Normal\<rparr>
      else if startswith line ''[colors.bright]'' then st\<lparr>current_section := Bright\<rparr>
      else if startswith line ''[colors.primary]'' then st\<lparr>current_section := Primary\<rparr>
      else if startswith line ''['' \<and> \<not> contains ''colors'' line
        then st\<lparr>current_section := NoSection\<rparr>
      else if startswith line ''[colors.'' then st\<lparr>current_section := Other\<rparr>
      else if startswith line ''#'' then st
      else if CHR ''='' \<in> set line \<and> (contains ''0x'' line \<or> CHR ''#'' \<in> set line) then
        (let key = strip (takeWhile (\<lambda>c. c \<noteq> CHR ''='') line);
             val = strip_quotes (strip (tl (dropWhile (\<lambda>c. c \<noteq> CHR ''='') line)))
         in case hex_search val of
              None \<Rightarrow> st
            | Some g \<Rightarrow> store st (color_name key) (CHR ''#'' # g))
      else st)"

text \<open>
  A file of the theme directory: missing, present but failing to open or decode (any
  exception of \<open>open\<close>/\<open>read\<close>), or present with its text.
\<close>

datatype toml_file = TAbsent | TUnreadable | TText string

definition scan_file :: "toml_file \<Rightarrow> scan_state" where
  "scan_file f =
     (case f of
        TText content \<Rightarrow> foldl scan_line scan_init (split_on NL content)
      | _ \<Rightarrow> scan_init)"

definition canonical :: "string list" where
  "canonical = [''red'', ''green'', ''yellow'', ''blue'', ''magenta'', ''cyan'']"

text \<open>The loop that fills the copy of the normal map from the bright map.\<close>

definition fill_from :: "dict \<Rightarrow> dict \<Rightarrow> string \<Rightarrow> dict" where
  "fill_from bright cols n =
     (case (map_of cols n, map_of bright n) of
        (None, Some v) \<Rightarrow> AList.update n v cols
      | _ \<Rightarrow> cols)"

definition merge_colors :: "dict \<Rightarrow> dict \<Rightarrow> dict" where
  "merge_colors normal bright = foldl (fill_from bright) normal canonical"

definition parse_toml_colors :: "toml_file \<Rightarrow> dict \<times> dict" where
  "parse_toml_colors f =
     (let st = scan_file f
      in (merge_colors (normal_colors st) (bright_colors st), primary_colors st))"

section \<open>Values loaded from JSON\<close>

text \<open>
  What \<open>json.load\<close> returns: \<open>None\<close>, a bool, a number, a str, a list or a dict (an
  association list, looked up by its first match). The payload of a number is never
  inspected, so floats are not told apart from ints.
\<close>

datatype json =
    JNull
  | JBool bool
  | JNum int
  | JStr string
  | JArr "json list"
  | JObj "(string \<times> json) list"

datatype py_error = KeyError | TypeError | AttributeError | OSError

definition bind_err :: "py_error + 'a \<Rightarrow> ('a \<Rightarrow> py_error + 'b) \<Rightarrow> py_error + 'b" where
  "bind_err m f = (case m of Inl e \<Rightarrow> Inl e | Inr x \<Rightarrow> f x)"

text \<open>\<open>k in v\<close> for a str \<open>k\<close>\<close>

fun py_in :: "string \<Rightarrow> json \<Rightarrow> py_error + bool" where
  "py_in k (JObj kvs) = Inr (k \<in> set (map fst kvs))"
| "py_in k (JArr xs) = Inr (JStr k \<in> set xs)"
| "py_in k (JStr s) = Inr (contains k s)"
| "py_in k JNull = Inl TypeError"
| "py_in k (JBool b) = Inl TypeError"
| "py_in k (JNum n) = Inl TypeError"

text \<open>\<open>v[k]\<close> for a str \<open>k\<close>\<close>

fun py_getitem :: "json \<Rightarrow> string \<Rightarrow> py_error + json" where
  "py_getitem (JObj kvs) k = (case map_of kvs k of Some v \<Rightarrow> Inr v | None \<Rightarrow> Inl KeyError)"
| "py_getitem _ k = Inl TypeError"

text \<open>\<open>v.get(k, d)\<close>\<close>

fun py_get :: "json \<Rightarrow> string \<Rightarrow> json \<Rightarrow> py_error + json" where
  "py_get (JObj kvs) k d = Inr (case map_of kvs k of Some v \<Rightarrow> v | None \<Rightarrow> d)"
| "py_get _ k d = Inl AttributeError"

section \<open>extract_theme_colors\<close>

record theme_data =
  theme_name :: string
  colors :: "(string \<times> json) list"
  background :: json
  foreground :: json

text \<open>\<open>a in td and b in td[a]\<close>\<close>

definition has_path :: "json \<Rightarrow> string \<Rightarrow> string \<Rightarrow> py_error + bool" where
  "has_path td a b =
     bind_err (py_in a td) (\<lambda>c.
       if c then bind_err (py_getitem td a) (py_in b) else Inr False)"

text \<open>The dict literal of the six roles, read from the sub-mapping \<open>m\<close>.\<close>

definition json_roles :: "json \<Rightarrow> py_error + (string \<times> json) list" where
  "json_roles m =
     bind_err (py_get m ''blue'' (JStr ''#38d6fa'')) (\<lambda>accent.
     bind_err (py_get m ''cyan'' (JStr ''#048ba8'')) (\<lambda>primary.
     bind_err (py_get m ''magenta'' (JStr ''#d35f5f'')) (\<lambda>secondary.
     bind_err (py_get m ''green'' (JStr ''#a9fbd7'')) (\<lambda>success.
     bind_err (py_get m ''yellow'' (JStr ''#9f87af'')) (\<lambda>warning.
     bind_err (py_get m ''red'' (JStr ''#9c528b'')) (\<lambda>error.
       Inr [(''accent'', accent), (''primary'', primary), (''secondary'', secondary),
            (''success'', success), (''warning'', warning), (''error'', error)]))))))"

text \<open>\<open>theme_data['apps']['alacritty']['colors'][k]\<close>\<close>

definition alacritty_sub :: "json \<Rightarrow> string \<Rightarrow> py_error + json" where
  "alacritty_sub td k =
     bind_err (py_getitem td ''apps'') (\<lambda>apps.
     bind_err (py_getitem apps ''alacritty'') (\<lambda>al.
     bind_err (py_getitem al ''colors'') (\<lambda>cs. py_getitem cs k)))"

definition json_colors :: "json \<Rightarrow> py_error + (string \<times> json) list" where
  "json_colors td =
     bind_err (has_path td ''colors'' ''terminal'') (\<lambda>c1.
       if c1 then
         bind_err (py_getitem td ''colors'') (\<lambda>cs.
         bind_err (py_getitem cs ''terminal'') json_roles)
       else
         bind_err (has_path td ''apps'' ''alacritty'') (\<lambda>c2.
           if c2 then bind_err (alacritty_sub td ''normal'') json_roles
           else Inr []))"

text \<open>The two \<open>.get\<close> calls for background and foreground on the sub-mapping \<open>m\<close>.\<close>

definition json_primary :: "json \<Rightarrow> py_error + json \<times> json" where
  "json_primary m =
     bind_err (py_get m ''background'' (JStr ''#000000'')) (\<lambda>bg.
     bind_err (py_get m ''foreground'' (JStr ''#ffffff'')) (\<lambda>fg. Inr (bg, fg)))"

definition json_bgfg :: "json \<Rightarrow> py_error + json \<times> json" where
  "json_bgfg td =
     bind_err (has_path td ''colors'' ''primary'') (\<lambda>c1.
       if c1 then
         bind_err (py_getitem td ''colors'') (\<lambda>cs.
         bind_err (py_getitem cs ''primary'') json_primary)
       else
         bind_err (has_path td ''apps'' ''alacritty'') (\<lambda>c2.
           if c2 then bind_err (alacritty_sub td ''primary'') json_primary
           else Inr (JStr ''#000000'', JStr ''#ffffff'')))"

text \<open>The body of the \<open>try\<close> after \<open>json.load\<close>, with the exception it ends in, if any.\<close>

definition json_theme :: "string \<Rightarrow> json \<Rightarrow> py_error + theme_data" where
  "json_theme nm td =
     bind_err (json_colors td) (\<lambda>cols.
     bind_err (json_bgfg td) (\<lambda>(bg, fg).
       Inr \<lparr>theme_name = nm, colors = cols, background = bg, foreground = fg\<rparr>))"

definition monochrome :: "(string \<times> json) list" where
  "monochrome =
     [(''accent'', JStr ''#777777''), (''primary'', JStr ''#999999''),
      (''secondary'', JStr ''#BBBBBB''), (''success'', JStr ''#AAAAAA''),
      (''warning'', JStr ''#888888''), (''error'', JStr ''#666666'')]"

text \<open>\<open>d.get(k, default)\<close> on a dict of strings\<close>

definition dict_get :: "dict \<Rightarrow> string \<Rightarrow> string \<Rightarrow> string" where
  "dict_get d k dflt = (case map_of d k of Some v \<Rightarrow> v | None \<Rightarrow> dflt)"

definition toml_roles :: "dict \<Rightarrow> (string \<times> json) list" where
  "toml_roles tc =
     [(''accent'', JStr (dict_get tc ''blue'' ''#6272a4'')),
      (''primary'', JStr (dict_get tc ''cyan'' ''#8be9fd'')),
      (''secondary'', JStr (dict_get tc ''magenta'' ''#ff79c6'')),
      (''success'', JStr (dict_get tc ''green'' ''#50fa7b'')),
      (''warning'', JStr (dict_get tc ''yellow'' ''#f1fa8c'')),
      (''error'', JStr (dict_get tc ''red'' ''#ff5555''))]"

text \<open>
  The regex scan of the raw text for one field. Reading the file again may raise; the
  \<open>except: pass\<close> then leaves the value as it was.
\<close>

definition scan_field :: "toml_file \<Rightarrow> string \<Rightarrow> string \<Rightarrow> string" where
  "scan_field f kw cur =
     (case f of
        TText content \<Rightarrow>
          (case field_search kw content of Some g \<Rightarrow> CHR ''#'' # g | None \<Rightarrow> cur)
      | _ \<Rightarrow> cur)"

text \<open>
  The branch for an existing \<open>alacritty.toml\<close>. In the monochrome case the source also
  searches a foreground, which it only prints: \<open>mono_foreground\<close> is that value.
\<close>

definition mono_foreground :: "toml_file \<Rightarrow> string" where
  "mono_foreground f = scan_field f ''foreground'' ''#EFEFEF''"

definition toml_theme :: "string \<Rightarrow> toml_file \<Rightarrow> theme_data" where
  "toml_theme nm f =
     (let (toml_colors, primary) = parse_toml_colors f;
          cols = (if toml_colors = [] then monochrome else toml_roles toml_colors);
          bg0 = dict_get primary ''background'' ''#282a36'';
          fg0 = dict_get primary ''foreground'' ''#f8f8f2'';
          bg = (if primary = [] then scan_field f ''background'' bg0 else bg0);
          fg = (if primary = [] then scan_field f ''foreground'' fg0 else fg0)
      in \<lparr>theme_name = nm, colors = cols, background = JStr bg, foreground = JStr fg\<rparr>)"

datatype json_file = JAbsent | JUnreadable | JMalformed | JParsed json

record theme_dir =
  dir_name :: string
  custom_theme_json :: json_file
  alacritty_toml :: toml_file

text \<open>The part after the \<open>if theme_json_path.exists()\<close> block.\<close>

definition toml_fallback :: "theme_dir \<Rightarrow> theme_data option" where
  "toml_fallback d =
     (case alacritty_toml d of
        TAbsent \<Rightarrow> None
      | f \<Rightarrow> Some (toml_theme (dir_name d) f))"

text \<open>
  \<open>Inr None\<close> is the return value \<open>None\<close>; \<open>Inl e\<close> is an exception that leaves the
  function (only \<open>JSONDecodeError\<close> and \<open>KeyError\<close> are caught in the JSON branch).
\<close>

definition extract_theme_colors :: "theme_dir \<Rightarrow> py_error + theme_data option" where
  "extract_theme_colors d =
     (case custom_theme_json d of
        JAbsent \<Rightarrow> Inr (toml_fallback d)
      | JUnreadable \<Rightarrow> Inl OSError
      | JMalformed \<Rightarrow> Inr (toml_fallback d)
      | JParsed td \<Rightarrow>
          (case json_theme (dir_name d) td of
             Inr r \<Rightarrow> Inr (Some r)
           | Inl KeyError \<Rightarrow> Inr (toml_fallback d)
           | Inl e \<Rightarrow> Inl e))"

section \<open>generate_navitone_config and update_navitone_config\<close>

record theme_config =
  cfg_name :: string
  cfg_source :: string
  cfg_colors :: "(string \<times> json) list"
  cfg_background :: json
  cfg_foreground :: json

definition generate_navitone_config :: "theme_data \<Rightarrow> theme_config" where
  "generate_navitone_config td =
     \<lparr>cfg_name = ''omarchy-'' @ theme_name td, cfg_source = ''omarchy'',
      cfg_colors = colors td, cfg_background = background td,
      cfg_foreground = foreground td\<rparr>"

text \<open>
  What an f-string puts for \<open>{v}\<close>: a str as it is; for any other value the text that
  Python's built-in \<open>str\<close> gives, taken as the parameter \<open>other\<close>.
\<close>

definition fstr :: "(json \<Rightarrow> string) \<Rightarrow> json \<Rightarrow> string" where
  "fstr other v = (case v of JStr s \<Rightarrow> s | _ \<Rightarrow> other v)"

text \<open>\<open>f'{k} = "{v}"\n'\<close>\<close>

definition assignment :: "string \<Rightarrow> string \<Rightarrow> string" where
  "assignment k v = k @ '' = '' @ [DQ] @ v @ [DQ, NL]"

text \<open>The strings appended to \<open>new_lines\<close> after the removal pass.\<close>

definition theme_block :: "(json \<Rightarrow> string) \<Rightarrow> theme_config \<Rightarrow> string list" where
  "theme_block other cfg =
     [NL # ''[theme]'' @ [NL],
      assignment ''name'' (cfg_name cfg),
      assignment ''source'' (cfg_source cfg),
      NL # ''[theme.colors]'' @ [NL]]
     @ map (\<lambda>(k, v). assignment k (fstr other v)) (cfg_colors cfg)
     @ [assignment ''background'' (fstr other (cfg_background cfg)),
        assignment ''foreground'' (fstr other (cfg_foreground cfg)),
        [NL]]"

text \<open>The removal pass; \<open>skip\<close> is \<open>skip_theme_section\<close>.\<close>

fun remove_theme :: "bool \<Rightarrow> string list \<Rightarrow> string list" where
  "remove_theme skip [] = []"
| "remove_theme skip (line # rest) =
     (let line_stripped = strip line in
      if line_stripped = ''[theme]'' \<or> startswith line_stripped ''[theme.''
      then remove_theme True rest
      else
        (let skip' = (if skip \<and> startswith line_stripped ''[''
                          \<and> \<not> startswith line_stripped ''[theme''
                      then False else skip)
         in if \<not> skip' then line # remove_theme skip' rest
            else remove_theme skip' rest))"

text \<open>The removal pass, then the line end added when the last kept line has none.\<close>

definition kept_lines :: "string list \<Rightarrow> string list" where
  "kept_lines lines =
     (let new_lines = remove_theme False lines
      in if new_lines \<noteq> [] \<and> \<not> endswith_nl (last new_lines)
         then new_lines @ [[NL]] else new_lines)"

definition merge_lines :: "(json \<Rightarrow> string) \<Rightarrow> theme_config \<Rightarrow> string list \<Rightarrow> string list"
  where
  "merge_lines other cfg lines = kept_lines lines @ theme_block other cfg"

text \<open>
  The destination file: missing; present but failing to open or decode on reading;
  readable but failing to open for writing; or readable and writable. The last two carry
  the content of the file.
\<close>

datatype dest_file = DAbsent | DUndecodable | DReadOnly string | DText string

text \<open>
  The result is the returned bool and the file afterwards. A missing file returns
  \<open>False\<close> at once; an exception of reading or of opening for writing is caught, returns
  \<open>False\<close> and leaves the file as it was. Otherwise the content is read with universal
  newlines, and \<open>writelines\<close> writes the strings one after the other.
\<close>

definition update_navitone_config ::
  "(json \<Rightarrow> string) \<Rightarrow> theme_config \<Rightarrow> dest_file \<Rightarrow> bool \<times> dest_file" where
  "update_navitone_config other cfg file =
     (case file of
        DAbsent \<Rightarrow> (False, DAbsent)
      | DUndecodable \<Rightarrow> (False, DUndecodable)
      | DReadOnly content \<Rightarrow> (False, DReadOnly content)
      | DText content \<Rightarrow>
          (True, DText (concat (merge_lines other cfg
             (readlines (translate_newlines content))))))"

section \<open>Statements of the specification\<close>

text \<open>The text whose lines are the given ones, each ended by a newline.\<close>

fun unlines :: "string list \<Rightarrow> string" where
  "unlines [] = []"
| "unlines (l # ls) = l @ NL # unlines ls"

text \<open>
  Background and foreground as the specification words them: both from the
  primary-section map when both keys are there; otherwise the fixed defaults, each
  overwritten by the regex scan of the raw text when its pattern matches.
\<close>

definition spec_bgfg :: "dict \<Rightarrow> string \<Rightarrow> string \<times> string" where
  "spec_bgfg primary content =
     (case (map_of primary ''background'', map_of primary ''foreground'') of
        (Some bg, Some fg) \<Rightarrow> (bg, fg)
      | _ \<Rightarrow>
         ((case field_search ''background'' content of
             Some g \<Rightarrow> CHR ''#'' # g | None \<Rightarrow> ''#282a36''),
          (case field_search ''foreground'' content of
             Some g \<Rightarrow> CHR ''#'' # g | None \<Rightarrow> ''#f8f8f2'')))"

text \<open>
  The lines of a theme section as the specification words them: a \<open>[theme]\<close> or
  \<open>[theme.*]\<close> header, and every line after one up to the next header line that does not
  begin with \<open>[theme\<close>.
\<close>

definition theme_header :: "string \<Rightarrow> bool" where
  "theme_header l = (strip l = ''[theme]'' \<or> startswith (strip l) ''[theme.'')"

definition other_header :: "string \<Rightarrow> bool" where
  "other_header l = (startswith (strip l) ''['' \<and> \<not> startswith (strip l) ''[theme'')"

definition in_theme_section :: "string list \<Rightarrow> nat \<Rightarrow> bool" where
  "in_theme_section ls i =
     (\<exists>j \<in> set [0..<Suc i]. theme_header (ls ! j) \<and>
        (\<forall>k \<in> set [Suc j..<Suc i]. \<not> other_header (ls ! k)))"

definition unrelated_lines :: "string list \<Rightarrow> string list" where
  "unrelated_lines ls =
     map (\<lambda>i. ls ! i) (filter (\<lambda>i. \<not> in_theme_section ls i) [0..<length ls])"

text \<open>
  A theme block that reads back as the lines it was written as: no value spans lines
  (it holds no newline and no carriage return), and the color keys are role names (the
  only keys \<open>extract_theme_colors\<close> produces).
\<close>

definition one_line :: "string \<Rightarrow> bool" where
  "one_line s = (NL \<notin> set s \<and> CR \<notin> set s)"

definition role_names :: "string list" where
  "role_names = [''accent'', ''primary'', ''secondary'', ''success'', ''warning'', ''error'']"

definition block_wf :: "(json \<Rightarrow> string) \<Rightarrow> theme_config \<Rightarrow> bool" where
  "block_wf other cfg =
     (one_line (cfg_name cfg) \<and> one_line (cfg_source cfg) \<and>
      list_all (\<lambda>(k, v). k \<in> set role_names \<and> one_line (fstr other v)) (cfg_colors cfg) \<and>
      one_line (fstr other (cfg_background cfg)) \<and>
      one_line (fstr other (cfg_foreground cfg)))"

text \<open>A color string: \<open>#\<close> and six hex digits.\<close>

definition color_string :: "string \<Rightarrow> bool" where
  "color_string s = (length s = 7 \<and> hd s = CHR ''#'' \<and> list_all ishex (tl s))"

text \<open>
  The SemanticPalette of the specification, fully populated: eight color strings. As the
  result of an extraction for the theme \<open>nm\<close> it is the \<open>theme_data\<close> below.
\<close>

record semantic_palette =
  role_accent :: string
  role_primary :: string
  role_secondary :: string
  role_success :: string
  role_warning :: string
  role_error :: string
  role_background :: string
  role_foreground :: string

definition full_palette :: "semantic_palette \<Rightarrow> bool" where
  "full_palette p =
     (color_string (role_accent p) \<and> color_string (role_primary p) \<and>
      color_string (role_secondary p) \<and> color_string (role_success p) \<and>
      color_string (role_warning p) \<and> color_string (role_error p) \<and>
      color_string (role_background p) \<and> color_string (role_foreground p))"

definition palette_data :: "string \<Rightarrow> semantic_palette \<Rightarrow> theme_data" where
  "palette_data nm p =
     \<lparr>theme_name = nm,
      colors =
        [(''accent'', JStr (role_accent p)), (''primary'', JStr (role_primary p)),
         (''secondary'', JStr (role_secondary p)), (''success'', JStr (role_success p)),
         (''warning'', JStr (role_warning p)), (''error'', JStr (role_error p))],
      background = JStr (role_background p), foreground = JStr (role_foreground p)\<rparr>"

section \<open>Example inputs\<close>

text \<open>
  In the examples every value is a str, so the text of other values is never asked for;
  the examples pass \<open>no_render\<close> for it.
\<close>

definition no_render :: "json \<Rightarrow> string" where
  "no_render v = []"

text \<open>The configuration generated from the monochrome palette of a theme named \<open>t\<close>.\<close>

definition gray_config :: theme_config where
  "gray_config =
     \<lparr>cfg_name = ''omarchy-t'', cfg_source = ''omarchy'',
      cfg_colors =
        [(''accent'', JStr ''#777777''), (''primary'', JStr ''#999999''),
         (''secondary'', JStr ''#BBBBBB''), (''success'', JStr ''#AAAAAA''),
         (''warning'', JStr ''#888888''), (''error'', JStr ''#666666'')],
      cfg_background = JStr ''#282a36'', cfg_foreground = JStr ''#f8f8f2''\<rparr>"


text \<open>A palette of eight different colors.\<close>

definition dracula :: semantic_palette where
  "dracula =
     \<lparr>role_accent = ''#6272a4'', role_primary = ''#8be9fd'', role_secondary = ''#ff79c6'',
      role_success = ''#50fa7b'', role_warning = ''#f1fa8c'', role_error = ''#ff5555'',
      role_background = ''#282a36'', role_foreground = ''#f8f8f2''\<rparr>"

section \<open>Auxiliary notions\<close>

text \<open>The rows of the theme block, without their line ends.\<close>

definition row :: "string \<Rightarrow> string \<Rightarrow> string" where
  "row k v = k @ '' = '' @ [DQ] @ v @ [DQ]"

definition block_rows :: "(json \<Rightarrow> string) \<Rightarrow> theme_config \<Rightarrow> string list" where
  "block_rows other cfg =
     [[], ''[theme]'', row ''name'' (cfg_name cfg), row ''source'' (cfg_source cfg),
      [], ''[theme.colors]'']
     @ map (\<lambda>(k, v). row k (fstr other v)) (cfg_colors cfg)
     @ [row ''background'' (fstr other (cfg_background cfg)),
        row ''foreground'' (fstr other (cfg_foreground cfg)),
        []]"

text \<open>A line with its line end, added when it has none.\<close>

definition terminate :: "string \<Rightarrow> string" where
  "terminate l = (if endswith_nl l then l else l @ [NL])"

text \<open>What \<open>readlines\<close> returns: non-empty lines, a newline only at the end of a line,
  and at the end of every line but the last.\<close>

definition lines_ok :: "string list \<Rightarrow> bool" where
  "lines_ok ls =
     ((\<forall>l \<in> set ls. l \<noteq> [] \<and> NL \<notin> set (butlast l)) \<and>
      (\<forall>l \<in> set (butlast ls). last l = NL))"

text \<open>The lines the removal pass drops when it starts with the flag \<open>skip\<close>.\<close>

definition skipped :: "bool \<Rightarrow> string list \<Rightarrow> nat \<Rightarrow> bool" where
  "skipped skip ls i =
     (in_theme_section ls i \<or> (skip \<and> (\<forall>k\<le>i. \<not> other_header (ls ! k))))"

section \<open>The structured descriptor\<close>

lemma extract_parsed:
  "custom_theme_json d = JParsed td \<Longrightarrow> json_theme (dir_name d) td \<noteq> Inl KeyError \<Longrightarrow>
   extract_theme_colors d =
     (case json_theme (dir_name d) td of Inr r \<Rightarrow> Inr (Some r) | Inl e \<Rightarrow> Inl e)"
  by (auto simp: extract_theme_colors_def split: sum.splits py_error.splits)

lemma json_theme_no_sub:
  assumes "has_path td ''colors'' ''terminal'' = Inr False"
    and "has_path td ''colors'' ''primary'' = Inr False"
    and "has_path td ''apps'' ''alacritty'' = Inr False"
  shows "json_theme nm td =
           Inr \<lparr>theme_name = nm, colors = [], background = JStr ''#000000'',
                foreground = JStr ''#ffffff''\<rparr>"
  using assms by (simp add: json_theme_def json_colors_def json_bgfg_def bind_err_def)

text \<open>
  C10, as stated, fails: a descriptor that parses as valid JSON and raises no lookup
  error, but holds a number, or \<open>null\<close> where the terminal colors are expected. The
  structured path raises a \<open>TypeError\<close>, an \<open>AttributeError\<close>, which the \<open>except\<close>
  clause does not catch: \<open>extract_theme_colors\<close> returns no result.
\<close>

theorem structured_path_raises:
  "extract_theme_colors
     \<lparr>dir_name = ''t'', custom_theme_json = JParsed (JNum 5), alacritty_toml = TAbsent\<rparr>
   = Inl TypeError
   \<and> extract_theme_colors
     \<lparr>dir_name = ''t'',
      custom_theme_json = JParsed (JObj [(''colors'', JObj [(''terminal'', JNull)])]),
      alacritty_toml = TAbsent\<rparr>
   = Inl AttributeError"
  by (simp add: extract_theme_colors_def json_theme_def json_colors_def json_roles_def
      has_path_def bind_err_def)

text \<open>
  C10, amended. When \<open>custom_theme.json\<close> parses and the structured path completes
  without an exception, \<open>extract_theme_colors\<close> returns the result of the structured
  path, whatever \<open>alacritty.toml\<close> is: the file is not read. This holds also when the JSON
  has none of \<open>colors.terminal\<close>, \<open>colors.primary\<close> and \<open>apps.alacritty\<close>: the result then
  has an empty \<open>colors\<close> mapping, background \<open>#000000\<close> and foreground \<open>#ffffff\<close>.
\<close>

theorem structured_precedence:
  assumes "custom_theme_json d = JParsed td"
  shows "(\<forall>r. json_theme (dir_name d) td = Inr r \<longrightarrow>
            extract_theme_colors (d\<lparr>alacritty_toml := t\<rparr>) = Inr (Some r))
         \<and> (has_path td ''colors'' ''terminal'' = Inr False \<and>
            has_path td ''colors'' ''primary'' = Inr False \<and>
            has_path td ''apps'' ''alacritty'' = Inr False \<longrightarrow>
            extract_theme_colors (d\<lparr>alacritty_toml := t\<rparr>) =
              Inr (Some \<lparr>theme_name = dir_name d, colors = [],
                         background = JStr ''#000000'', foreground = JStr ''#ffffff''\<rparr>))"
proof -
  let ?d = "d\<lparr>alacritty_toml := t\<rparr>"
  have a: "custom_theme_json ?d = JParsed td" using assms by simp
  have c: "extract_theme_colors ?d = Inr (Some r)"
    if "json_theme (dir_name d) td = Inr r" for r
  proof -
    have "json_theme (dir_name ?d) td \<noteq> Inl KeyError" using that by simp
    from extract_parsed [OF a this] show ?thesis using that by simp
  qed
  show ?thesis using c by (auto simp: json_theme_no_sub)
qed

theorem structured_precedence_witness:
  "extract_theme_colors
     \<lparr>dir_name = ''nord'', custom_theme_json = JParsed (JObj [(''name'', JStr ''nord'')]),
      alacritty_toml = TText (unlines [''[colors.normal]'', ''red = #ff0000''])\<rparr>
   = Inr (Some \<lparr>theme_name = ''nord'', colors = [],
                background = JStr ''#000000'', foreground = JStr ''#ffffff''\<rparr>)
   \<and> extract_theme_colors
     \<lparr>dir_name = ''nord'',
      custom_theme_json =
        JParsed (JObj [(''colors'', JObj [(''terminal'', JObj [(''red'', JStr ''#bf616a'')])])]),
      alacritty_toml = TText (unlines [''[colors.normal]'', ''red = #ff0000''])\<rparr>
   = Inr (Some \<lparr>theme_name = ''nord'',
                colors = [(''accent'', JStr ''#38d6fa''), (''primary'', JStr ''#048ba8''),
                          (''secondary'', JStr ''#d35f5f''), (''success'', JStr ''#a9fbd7''),
                          (''warning'', JStr ''#9f87af''), (''error'', JStr ''#bf616a'')],
                background = JStr ''#000000'', foreground = JStr ''#ffffff''\<rparr>)"
proof -
  let ?t = "TText (unlines [''[colors.normal]'', ''red = #ff0000''])"
  let ?td0 = "JObj [(''name'', JStr ''nord'')]"
  let ?d0 = "\<lparr>dir_name = ''nord'', custom_theme_json = JParsed ?td0, alacritty_toml = TAbsent\<rparr>"
  let ?td1 = "JObj [(''colors'', JObj [(''terminal'', JObj [(''red'', JStr ''#bf616a'')])])]"
  let ?d1 = "\<lparr>dir_name = ''nord'', custom_theme_json = JParsed ?td1, alacritty_toml = TAbsent\<rparr>"
  have p: "has_path ?td0 ''colors'' ''terminal'' = Inr False \<and>
           has_path ?td0 ''colors'' ''primary'' = Inr False \<and>
           has_path ?td0 ''apps'' ''alacritty'' = Inr False"
    by (simp add: has_path_def bind_err_def)
  have a0: "custom_theme_json ?d0 = JParsed ?td0" by simp
  have a1: "custom_theme_json ?d1 = JParsed ?td1" by simp
  have r: "json_theme (dir_name ?d1) ?td1 =
             Inr \<lparr>theme_name = ''nord'',
                colors = [(''accent'', JStr ''#38d6fa''), (''primary'', JStr ''#048ba8''),
                          (''secondary'', JStr ''#d35f5f''), (''success'', JStr ''#a9fbd7''),
                          (''warning'', JStr ''#9f87af''), (''error'', JStr ''#bf616a'')],
                background = JStr ''#000000'', foreground = JStr ''#ffffff''\<rparr>"
    by (simp add: json_theme_def json_colors_def json_bgfg_def json_roles_def has_path_def
        bind_err_def)
  have one: "extract_theme_colors (?d0\<lparr>alacritty_toml := ?t\<rparr>) =
      Inr (Some \<lparr>theme_name = dir_name ?d0, colors = [],
                 background = JStr ''#000000'', foreground = JStr ''#ffffff''\<rparr>)"
    using structured_precedence [OF a0, of ?t, THEN conjunct2, THEN mp, OF p] .
  have two: "extract_theme_colors (?d1\<lparr>alacritty_toml := ?t\<rparr>) = Inr (Some
      \<lparr>theme_name = ''nord'',
                colors = [(''accent'', JStr ''#38d6fa''), (''primary'', JStr ''#048ba8''),
                          (''secondary'', JStr ''#d35f5f''), (''success'', JStr ''#a9fbd7''),
                          (''warning'', JStr ''#9f87af''), (''error'', JStr ''#bf616a'')],
                background = JStr ''#000000'', foreground = JStr ''#ffffff''\<rparr>)"
    using structured_precedence [OF a1, of ?t, THEN conjunct1, THEN spec, THEN mp, OF r] .
  show ?thesis using one two by simp
qed

text \<open>
  C2. A descriptor that parses but has neither \<open>colors.terminal\<close> nor \<open>apps.alacritty\<close>,
  here the empty object: the six roles do not get the fallback constants, the \<open>colors\<close>
  mapping of the result is empty.
\<close>

theorem no_submapping_no_fallback:
  "extract_theme_colors
     \<lparr>dir_name = ''t'', custom_theme_json = JParsed (JObj []), alacritty_toml = TAbsent\<rparr>
   = Inr (Some \<lparr>theme_name = ''t'', colors = [], background = JStr ''#000000'',
                foreground = JStr ''#ffffff''\<rparr>)"
  by (simp add: extract_theme_colors_def json_theme_def json_colors_def json_bgfg_def
      has_path_def bind_err_def)

text \<open>
  Every other path populates the six roles: the line-oriented path always, the structured
  path whenever it reads a sub-mapping.
\<close>

lemma toml_theme_populated: "map fst (colors (toml_theme nm f)) = role_names"
  by (simp add: toml_theme_def Let_def monochrome_def toml_roles_def role_names_def
      split: prod.splits)

lemma json_roles_populated: "json_roles m = Inr cs \<Longrightarrow> map fst cs = role_names"
  by (cases m) (auto simp: json_roles_def bind_err_def role_names_def)

text \<open>
  C1. A descriptor with \<open>colors.primary\<close> only is processed without an error, and the
  palette returned has background and foreground but none of the six roles.
\<close>

theorem palette_partially_empty:
  "extract_theme_colors
     \<lparr>dir_name = ''t'',
      custom_theme_json =
        JParsed (JObj [(''colors'',
          JObj [(''primary'', JObj [(''background'', JStr ''#101010'')])])]),
      alacritty_toml = TAbsent\<rparr>
   = Inr (Some \<lparr>theme_name = ''t'', colors = [], background = JStr ''#101010'',
                foreground = JStr ''#ffffff''\<rparr>)"
  by (simp add: extract_theme_colors_def json_theme_def json_colors_def json_bgfg_def
      json_primary_def has_path_def bind_err_def)

section \<open>The fallback to the line-oriented file\<close>

text \<open>
  C3, as stated, fails: with a descriptor that cannot be parsed and a line-oriented file
  beside it, extraction returns the palette of the line-oriented file.
\<close>

theorem malformed_json_falls_back:
  "extract_theme_colors
     \<lparr>dir_name = ''t'', custom_theme_json = JMalformed,
      alacritty_toml = TText (unlines [''[colors.normal]'', ''red = #ff0000''])\<rparr>
   = Inr (Some \<lparr>theme_name = ''t'',
       colors = [(''accent'', JStr ''#6272a4''), (''primary'', JStr ''#8be9fd''),
                 (''secondary'', JStr ''#ff79c6''), (''success'', JStr ''#50fa7b''),
                 (''warning'', JStr ''#f1fa8c''), (''error'', JStr ''#ff0000'')],
       background = JStr ''#282a36'', foreground = JStr ''#f8f8f2''\<rparr>)"
  by code_simp

text \<open>
  C3, amended. When the structured descriptor exists but cannot be parsed, or its
  evaluation raises a \<open>KeyError\<close>, structured extraction yields no data and the
  line-oriented file is tried next: the result is the line-oriented extraction of
  \<open>alacritty.toml\<close> when that file exists, and no data only when it does not.
\<close>

theorem json_failure_then_toml:
  assumes "custom_theme_json d = JMalformed \<or>
           (\<exists>td. custom_theme_json d = JParsed td \<and> json_theme (dir_name d) td = Inl KeyError)"
  shows "extract_theme_colors d =
           Inr (case alacritty_toml d of
                  TAbsent \<Rightarrow> None
                | TUnreadable \<Rightarrow> Some (toml_theme (dir_name d) TUnreadable)
                | TText c \<Rightarrow> Some (toml_theme (dir_name d) (TText c)))"
  using assms
  by (auto simp: extract_theme_colors_def toml_fallback_def split: toml_file.splits)

theorem json_failure_then_toml_witness:
  "extract_theme_colors
     \<lparr>dir_name = ''t'',
      custom_theme_json = JParsed (JObj [(''apps'', JObj [(''alacritty'', JObj [])])]),
      alacritty_toml = TText (unlines [''[colors.bright]'', ''green = 0x00ff00''])\<rparr>
   = Inr (Some (toml_theme ''t'' (TText (unlines [''[colors.bright]'', ''green = 0x00ff00'']))))
   \<and> colors (toml_theme ''t'' (TText (unlines [''[colors.bright]'', ''green = 0x00ff00'']))) =
       [(''accent'', JStr ''#6272a4''), (''primary'', JStr ''#8be9fd''),
                 (''secondary'', JStr ''#ff79c6''), (''success'', JStr ''#00ff00''),
                 (''warning'', JStr ''#f1fa8c''), (''error'', JStr ''#ff5555'')]"
proof -
  let ?td = "JObj [(''apps'', JObj [(''alacritty'', JObj [])])]"
  let ?d = "\<lparr>dir_name = ''t'', custom_theme_json = JParsed ?td,
      alacritty_toml = TText (unlines [''[colors.bright]'', ''green = 0x00ff00''])\<rparr>"
  have k: "json_theme (dir_name ?d) ?td = Inl KeyError"
    by (simp add: json_theme_def json_colors_def has_path_def alacritty_sub_def bind_err_def)
  have h: "custom_theme_json ?d = JMalformed \<or>
           (\<exists>td. custom_theme_json ?d = JParsed td \<and> json_theme (dir_name ?d) td = Inl KeyError)"
    using k by simp
  have c: "colors (toml_theme ''t'' (TText (unlines [''[colors.bright]'', ''green = 0x00ff00'']))) =
       [(''accent'', JStr ''#6272a4''), (''primary'', JStr ''#8be9fd''),
                 (''secondary'', JStr ''#ff79c6''), (''success'', JStr ''#00ff00''),
                 (''warning'', JStr ''#f1fa8c''), (''error'', JStr ''#ff5555'')]"
    by code_simp
  show ?thesis using json_failure_then_toml [OF h] c by simp
qed

section \<open>Monochrome\<close>

lemma toml_theme_colors:
  "colors (toml_theme nm f) =
     (if fst (parse_toml_colors f) = [] then monochrome else toml_roles (fst (parse_toml_colors f)))"
  by (simp add: toml_theme_def Let_def split: prod.splits)

text \<open>
  C7. For every line-oriented text whose merged color map is empty, the six roles are the
  fixed grayscale constants, whatever else the text holds (a foreground included).
\<close>

theorem monochrome_degeneration:
  assumes "fst (parse_toml_colors (TText content)) = []"
  shows "colors (toml_theme nm (TText content)) =
           [(''accent'', JStr ''#777777''), (''primary'', JStr ''#999999''),
            (''secondary'', JStr ''#BBBBBB''), (''success'', JStr ''#AAAAAA''),
            (''warning'', JStr ''#888888''), (''error'', JStr ''#666666'')]"
  using assms by (simp add: toml_theme_colors monochrome_def)

theorem monochrome_degeneration_witness:
  "foreground (toml_theme ''t'' (TText (unlines [''[window]'', ''foreground = #123456'']))) = JStr ''#123456''
   \<and> colors (toml_theme ''t'' (TText (unlines [''[window]'', ''foreground = #123456'']))) =
           [(''accent'', JStr ''#777777''), (''primary'', JStr ''#999999''),
            (''secondary'', JStr ''#BBBBBB''), (''success'', JStr ''#AAAAAA''),
            (''warning'', JStr ''#888888''), (''error'', JStr ''#666666'')]"
proof -
  have h: "fst (parse_toml_colors (TText (unlines [''[window]'', ''foreground = #123456'']))) = []"
    by code_simp
  have f: "foreground (toml_theme ''t'' (TText (unlines [''[window]'', ''foreground = #123456'']))) = JStr ''#123456''"
    by code_simp
  show ?thesis using monochrome_degeneration [OF h, of "''t''"] f by simp
qed

section \<open>Background and foreground\<close>

text \<open>
  C9, as stated, fails: the primary section defines the background only and a foreground
  stands outside of it. The specification's rule scans the text and finds \<open>#222222\<close>; the
  code keeps the default, since it scans only when the primary-section map is empty.
\<close>

theorem bgfg_not_as_specified:
  "foreground (toml_theme ''t''
      (TText (unlines [''foreground = #222222'', ''[colors.primary]'', ''background = #111111''])))
     = JStr ''#f8f8f2''
   \<and> snd (parse_toml_colors
      (TText (unlines [''foreground = #222222'', ''[colors.primary]'', ''background = #111111''])))
     = [(''background'', ''#111111'')]
   \<and> snd (spec_bgfg [(''background'', ''#111111'')]
        (unlines [''foreground = #222222'', ''[colors.primary]'', ''background = #111111'']))
     = ''#222222''"
  by code_simp

text \<open>
  C9, amended. Background and foreground are each taken from the primary-section map
  when its key is there, and are the fixed default otherwise; the regex scan of the raw
  text is attempted only when the primary-section map is empty, and then overwrites the
  default of each field independently when its pattern matches.
\<close>

theorem bgfg_resolution:
  fixes content :: string
  defines "primary \<equiv> snd (parse_toml_colors (TText content))"
  shows "background (toml_theme nm (TText content)) =
           JStr (case map_of primary ''background'' of
                   Some v \<Rightarrow> v
                 | None \<Rightarrow>
                     if primary = [] then
                       (case field_search ''background'' content of
                          Some g \<Rightarrow> CHR ''#'' # g
                        | None \<Rightarrow> ''#282a36'')
                     else ''#282a36'')
         \<and> foreground (toml_theme nm (TText content)) =
           JStr (case map_of primary ''foreground'' of
                   Some v \<Rightarrow> v
                 | None \<Rightarrow>
                     if primary = [] then
                       (case field_search ''foreground'' content of
                          Some g \<Rightarrow> CHR ''#'' # g
                        | None \<Rightarrow> ''#f8f8f2'')
                     else ''#f8f8f2'')"
  unfolding primary_def
  by (cases "parse_toml_colors (TText content)")
     (auto simp: toml_theme_def dict_get_def scan_field_def split: option.splits)


theorem bgfg_resolution_witness:
  "background (toml_theme ''t''
      (TText (unlines [''foreground = #222222'', ''[colors.primary]'', ''background = #111111''])))
     = JStr ''#111111''
   \<and> foreground (toml_theme ''t''
      (TText (unlines [''foreground = #222222'', ''[colors.primary]'', ''background = #111111''])))
     = JStr ''#f8f8f2''
   \<and> background (toml_theme ''t'' (TText (unlines [''background = 0x333333''])))
     = JStr ''#333333''
   \<and> foreground (toml_theme ''t'' (TText (unlines [''background = 0x333333''])))
     = JStr ''#f8f8f2''"
proof -
  have p1: "snd (parse_toml_colors
      (TText (unlines [''foreground = #222222'', ''[colors.primary]'', ''background = #111111''])))
     = [(''background'', ''#111111'')]"
    by code_simp
  have p2: "snd (parse_toml_colors (TText (unlines [''background = 0x333333'']))) = []"
    by code_simp
  have s1: "field_search ''background'' (unlines [''background = 0x333333'']) = Some ''333333''"
    by code_simp
  have s2: "field_search ''foreground'' (unlines [''background = 0x333333'']) = None"
    by code_simp
  show ?thesis
    using bgfg_resolution [of "''t''"
        "unlines [''foreground = #222222'', ''[colors.primary]'', ''background = #111111'']"]
      bgfg_resolution [of "''t''" "unlines [''background = 0x333333'']"]
    unfolding p1 p2 s1 s2 by simp
qed

section \<open>Normal over bright\<close>


lemma map_of_fill_from:
  "map_of (fill_from bright cols n) k =
     (if k = n \<and> map_of cols n = None then map_of bright n else map_of cols k)"
  by (auto simp: fill_from_def update_conv' split: option.splits)

lemma map_of_fill_all:
  "map_of (foldl (fill_from bright) cols ns) k =
     (case map_of cols k of
        Some v \<Rightarrow> Some v
      | None \<Rightarrow> if k \<in> set ns then map_of bright k else None)"
proof (induction ns arbitrary: cols)
  case Nil
  then show ?case by (simp split: option.splits)
next
  case (Cons n ns)
  show ?case
    by (auto simp: Cons.IH map_of_fill_from split: option.splits)
qed

lemma map_of_merge_colors:
  "map_of (merge_colors normal bright) k =
     (case map_of normal k of
        Some v \<Rightarrow> Some v
      | None \<Rightarrow> if k \<in> set canonical then map_of bright k else None)"
  by (simp add: merge_colors_def map_of_fill_all)

lemma merge_colors_nonempty:
  "map_of (merge_colors normal bright) k = Some v \<Longrightarrow> merge_colors normal bright \<noteq> []"
  by auto

text \<open>
  C6. The merged color map is the normal-section map, with each of the six canonical
  names that the normal map lacks taken from the bright map when it is there. When the
  normal section defines red, the error role is that value; when the normal section has no
  blue and the bright section has one, the accent role is the bright value.
\<close>

theorem normal_over_bright:
  fixes f :: toml_file
  defines "normal \<equiv> normal_colors (scan_file f)"
    and "bright \<equiv> bright_colors (scan_file f)"
  shows "(\<forall>k. map_of (fst (parse_toml_colors f)) k =
            (case map_of normal k of
               Some v \<Rightarrow> Some v
             | None \<Rightarrow> if k \<in> set [''red'', ''green'', ''yellow'', ''blue'', ''magenta'', ''cyan'']
                       then map_of bright k else None))
       \<and> (\<forall>v. map_of normal ''red'' = Some v \<longrightarrow>
             map_of (colors (toml_theme nm f)) ''error'' = Some (JStr v))
       \<and> (\<forall>v. map_of normal ''blue'' = None \<and> map_of bright ''blue'' = Some v \<longrightarrow>
             map_of (colors (toml_theme nm f)) ''accent'' = Some (JStr v))"
proof -
  let ?m = "merge_colors normal bright"
  have p: "fst (parse_toml_colors f) = ?m"
    by (simp add: parse_toml_colors_def normal_def bright_def Let_def)
  have a: "\<forall>k. map_of ?m k =
            (case map_of normal k of
               Some v \<Rightarrow> Some v
             | None \<Rightarrow> if k \<in> set [''red'', ''green'', ''yellow'', ''blue'', ''magenta'', ''cyan'']
                       then map_of bright k else None)"
    using map_of_merge_colors [of normal bright] by (simp add: canonical_def)
  have c: "colors (toml_theme nm f) = (if ?m = [] then monochrome else toml_roles ?m)"
    using toml_theme_colors [of nm f] by (simp add: p)
  have r: "map_of (colors (toml_theme nm f)) ''error'' = Some (JStr v)"
    if "map_of normal ''red'' = Some v" for v
  proof -
    have "map_of ?m ''red'' = Some v" using that by (simp add: map_of_merge_colors)
    moreover from this have "?m \<noteq> []" by auto
    ultimately show ?thesis by (simp add: c toml_roles_def dict_get_def)
  qed
  have b: "map_of (colors (toml_theme nm f)) ''accent'' = Some (JStr v)"
    if "map_of normal ''blue'' = None" "map_of bright ''blue'' = Some v" for v
  proof -
    have "map_of ?m ''blue'' = Some v"
      using that by (simp add: map_of_merge_colors canonical_def)
    moreover from this have "?m \<noteq> []" by auto
    ultimately show ?thesis by (simp add: c toml_roles_def dict_get_def)
  qed
  show ?thesis using a r b by (simp add: p)
qed



theorem normal_over_bright_witness:
  "map_of (fst (parse_toml_colors (TText (unlines
      [''[colors.normal]'', ''red = #aa0000'', ''[colors.bright]'', ''red = #ff0000'',
       ''blue = #0000ff''])))) ''red'' = Some ''#aa0000''
   \<and> map_of (colors (toml_theme ''t'' (TText (unlines
      [''[colors.normal]'', ''red = #aa0000'', ''[colors.bright]'', ''red = #ff0000'',
       ''blue = #0000ff''])))) ''error'' = Some (JStr ''#aa0000'')
   \<and> map_of (colors (toml_theme ''t'' (TText (unlines
      [''[colors.normal]'', ''red = #aa0000'', ''[colors.bright]'', ''red = #ff0000'',
       ''blue = #0000ff''])))) ''accent'' = Some (JStr ''#0000ff'')"
proof -
  let ?f = "TText (unlines
      [''[colors.normal]'', ''red = #aa0000'', ''[colors.bright]'', ''red = #ff0000'',
       ''blue = #0000ff''])"
  have n: "normal_colors (scan_file ?f) = [(''red'', ''#aa0000'')]"
    by code_simp
  have b: "bright_colors (scan_file ?f) = [(''red'', ''#ff0000''), (''blue'', ''#0000ff'')]"
    by code_simp
  show ?thesis
    using normal_over_bright [of ?f "''t''"] unfolding n b by simp
qed

section \<open>The removal pass\<close>

lemma startswith_append: "startswith s (p @ q) \<Longrightarrow> startswith s p"
proof -
  assume "startswith s (p @ q)"
  then have "take (length p) (take (length (p @ q)) s) = take (length p) (p @ q)"
    by (simp add: startswith_def)
  then show ?thesis by (simp add: startswith_def min_def)
qed

lemma header_not_other: "theme_header l \<Longrightarrow> \<not> other_header l"
  using startswith_append [of "strip l" "''[theme''" "''.''"]
  by (auto simp: theme_header_def other_header_def) (simp add: startswith_def)

lemma remove_theme_Cons:
  "remove_theme skip (l # ls) =
     (if theme_header l \<or> (skip \<and> \<not> other_header l)
      then remove_theme True ls
      else l # remove_theme False ls)"
  using header_not_other [of l]
  by (auto simp: theme_header_def other_header_def Let_def)

lemma in_theme_section_iff:
  "in_theme_section ls i =
     (\<exists>j\<le>i. theme_header (ls ! j) \<and> (\<forall>k. Suc j \<le> k \<and> k \<le> i \<longrightarrow> \<not> other_header (ls ! k)))"
  by (simp only: in_theme_section_def set_upt Bex_def Ball_def atLeastLessThan_iff
      less_Suc_eq_le le0 simp_thms)

lemma all_shift_Cons:
  "(\<forall>k. Suc j \<le> k \<and> k \<le> Suc i \<longrightarrow> P ((l # ls) ! k)) = (\<forall>k. j \<le> k \<and> k \<le> i \<longrightarrow> P (ls ! k))"
  by (metis Suc_le_D Suc_le_mono nth_Cons_Suc)

lemma ex_le_Suc: "(\<exists>j\<le>Suc i. Q j) = (Q 0 \<or> (\<exists>j\<le>i. Q (Suc j)))"
  by (metis Suc_le_mono le0 not0_implies_Suc)

lemma all_le_Suc_Cons: "(\<forall>k\<le>Suc i. P ((l # ls) ! k)) = (P l \<and> (\<forall>k\<le>i. P (ls ! k)))"
  by (metis Suc_le_mono le0 not0_implies_Suc nth_Cons_0 nth_Cons_Suc)

lemma in_theme_section_Suc:
  "in_theme_section (l # ls) (Suc i) =
     (in_theme_section ls i \<or> (theme_header l \<and> (\<forall>k\<le>i. \<not> other_header (ls ! k))))"
proof -
  define Q where "Q = (\<lambda>xs n j. theme_header (xs ! j) \<and>
     (\<forall>k. Suc j \<le> k \<and> k \<le> n \<longrightarrow> \<not> other_header (xs ! k)))"
  have z: "Q (l # ls) (Suc i) 0 = (theme_header l \<and> (\<forall>k\<le>i. \<not> other_header (ls ! k)))"
    using all_shift_Cons [of 0 i "\<lambda>x. \<not> other_header x" l ls] by (simp add: Q_def)
  have s: "Q (l # ls) (Suc i) (Suc j) = Q ls i j" for j
    using all_shift_Cons [of "Suc j" i "\<lambda>x. \<not> other_header x" l ls] by (simp add: Q_def)
  have "in_theme_section (l # ls) (Suc i) = (\<exists>j\<le>Suc i. Q (l # ls) (Suc i) j)"
    by (simp only: in_theme_section_iff Q_def)
  also have "\<dots> = (Q (l # ls) (Suc i) 0 \<or> (\<exists>j\<le>i. Q (l # ls) (Suc i) (Suc j)))"
    by (rule ex_le_Suc)
  also have "\<dots> = ((theme_header l \<and> (\<forall>k\<le>i. \<not> other_header (ls ! k))) \<or> (\<exists>j\<le>i. Q ls i j))"
    by (simp only: z s)
  also have "(\<exists>j\<le>i. Q ls i j) = in_theme_section ls i"
    by (simp only: in_theme_section_iff Q_def)
  finally show ?thesis by blast
qed

lemma no_other_Suc:
  "(\<forall>k\<le>Suc i. \<not> other_header ((l # ls) ! k)) =
     (\<not> other_header l \<and> (\<forall>k\<le>i. \<not> other_header (ls ! k)))"
  by (rule all_le_Suc_Cons [of i "\<lambda>x. \<not> other_header x" l ls])

lemma skipped_0: "skipped skip (l # ls) 0 = (theme_header l \<or> (skip \<and> \<not> other_header l))"
proof -
  have "in_theme_section (l # ls) 0 = theme_header l"
    by (simp add: in_theme_section_def)
  then show ?thesis by (simp add: skipped_def)
qed

lemma skipped_Suc:
  "skipped skip (l # ls) (Suc i) =
     skipped (theme_header l \<or> (skip \<and> \<not> other_header l)) ls i"
proof -
  have "skipped skip (l # ls) (Suc i) =
          ((in_theme_section ls i \<or> (theme_header l \<and> (\<forall>k\<le>i. \<not> other_header (ls ! k))))
           \<or> (skip \<and> \<not> other_header l \<and> (\<forall>k\<le>i. \<not> other_header (ls ! k))))"
    by (simp only: skipped_def in_theme_section_Suc no_other_Suc)
  also have "\<dots> = skipped (theme_header l \<or> (skip \<and> \<not> other_header l)) ls i"
    unfolding skipped_def by blast
  finally show ?thesis .
qed

lemma upt_0_Suc: "[0..<Suc n] = 0 # map Suc [0..<n]"
  by (simp only: map_Suc_upt upt_conv_Cons [OF zero_less_Suc])

lemma remove_theme_skipped:
  "remove_theme skip ls =
     map (\<lambda>i. ls ! i) (filter (\<lambda>i. \<not> skipped skip ls i) [0..<length ls])"
proof (induction ls arbitrary: skip)
  case Nil
  show ?case by simp
next
  case (Cons l ls)
  let ?s = "theme_header l \<or> (skip \<and> \<not> other_header l)"
  have t: "map (\<lambda>i. (l # ls) ! i) (filter (\<lambda>i. \<not> skipped skip (l # ls) i) (map Suc [0..<length ls]))
           = remove_theme ?s ls"
    by (simp add: filter_map comp_def skipped_Suc Cons.IH [of ?s])
  have "length (l # ls) = Suc (length ls)" by simp
  then have u: "[0..<length (l # ls)] = 0 # map Suc [0..<length ls]"
    by (simp only: upt_0_Suc)
  show ?case
    unfolding u remove_theme_Cons
    using t by (auto simp: skipped_0 simp del: remove_theme.simps)
qed

lemma translate_newlines_id: "CR \<notin> set s \<Longrightarrow> translate_newlines s = s"
  by (induction s rule: translate_newlines.induct) auto

lemma translate_newlines_no_cr: "CR \<notin> set (translate_newlines s)"
  by (induction s rule: translate_newlines.induct) auto

text \<open>
  C5, as stated, fails: in a destination file with CRLF line ends the two lines of the
  claim are \<open>[other]\<close> and \<open>x = 1\<close>, each ending in a carriage return and a newline, and
  neither is a theme line; the file written holds them with the newline only.
\<close>

theorem crlf_lines_rewritten:
  "unrelated_lines (readlines (''[other]'' @ [CR, NL] @ ''x = 1'' @ [CR, NL]))
     = [''[other]'' @ [CR, NL], ''x = 1'' @ [CR, NL]]
   \<and> update_navitone_config no_render gray_config
       (DText (''[other]'' @ [CR, NL] @ ''x = 1'' @ [CR, NL]))
     = (True, DText (''[other]'' @ [NL] @ ''x = 1'' @ [NL]
                      @ concat (theme_block no_render gray_config)))"
  by code_simp

text \<open>
  C5, amended. The removal pass keeps exactly the lines that are neither a \<open>[theme]\<close> or
  \<open>[theme.*]\<close> header nor inside a theme section (which extends to the next header line
  not beginning with \<open>[theme\<close>), verbatim and in their order; the merged output is these
  lines, a line end if the last of them has none, and the new theme block. The lines are
  those of the destination file as text mode reads it: a CRLF or lone CR line end is
  written back as a newline, so the kept lines are byte-for-byte those of the file exactly
  when the file holds no carriage return.
\<close>

theorem removal_frame:
  "remove_theme False ls = unrelated_lines ls
   \<and> merge_lines other cfg ls =
       unrelated_lines ls
       @ (if unrelated_lines ls \<noteq> [] \<and> \<not> endswith_nl (last (unrelated_lines ls))
          then [[NL]] else [])
       @ theme_block other cfg
   \<and> update_navitone_config other cfg (DText content) =
       (True, DText (concat (unrelated_lines (readlines (translate_newlines content)))
          @ (if unrelated_lines (readlines (translate_newlines content)) \<noteq> []
                \<and> \<not> endswith_nl
                      (last (unrelated_lines (readlines (translate_newlines content))))
             then [NL] else [])
          @ concat (theme_block other cfg)))
   \<and> (CR \<notin> set content \<longrightarrow> translate_newlines content = content)"
proof -
  have a: "remove_theme False xs = unrelated_lines xs" for xs
    by (simp add: remove_theme_skipped unrelated_lines_def skipped_def)
  show ?thesis
    by (simp add: a update_navitone_config_def merge_lines_def kept_lines_def
        translate_newlines_id)
qed

theorem removal_frame_witness:
  "update_navitone_config no_render gray_config
     (DText (''[other]'' @ [CR, NL] @ ''x = 1'' @ [NL] @ ''  [theme]'' @ [NL]
             @ ''name = old'' @ [NL] @ ''[theme.colors]'' @ [NL] @ ''accent = #000000'' @ [NL]
             @ ''[themes]'' @ [NL] @ ''[ui]'' @ [CR] @ ''y = 2''))
   = (True, DText (unlines [''[other]'', ''x = 1'', ''[ui]'', ''y = 2'']
                    @ concat (theme_block no_render gray_config)))"
proof -
  let ?content = "''[other]'' @ [CR, NL] @ ''x = 1'' @ [NL] @ ''  [theme]'' @ [NL]
             @ ''name = old'' @ [NL] @ ''[theme.colors]'' @ [NL] @ ''accent = #000000'' @ [NL]
             @ ''[themes]'' @ [NL] @ ''[ui]'' @ [CR] @ ''y = 2''"
  have e: "unrelated_lines (readlines (translate_newlines ?content))
           = [''[other]'' @ [NL], ''x = 1'' @ [NL], ''[ui]'' @ [NL], ''y = 2'']"
    by code_simp
  show ?thesis
    using removal_frame [THEN conjunct2, THEN conjunct2, THEN conjunct1,
        of no_render gray_config ?content]
    unfolding e by (simp add: endswith_nl_def)
qed

section \<open>Reading lines back\<close>

lemma unlines_append: "unlines (a @ b) = unlines a @ unlines b"
  by (induction a) auto

lemma readlines_row: "NL \<notin> set s \<Longrightarrow> readlines (s @ NL # rest) = (s @ [NL]) # readlines rest"
  by (induction s) auto

lemma readlines_unlines:
  "\<forall>r \<in> set rows. NL \<notin> set r \<Longrightarrow>
   readlines (unlines rows @ rest) = map (\<lambda>r. r @ [NL]) rows @ readlines rest"
  by (induction rows) (auto simp: readlines_row)

lemma assignment_row: "assignment k v = row k v @ [NL]"
  by (simp add: assignment_def row_def)

lemma unlines_map_row:
  "concat (map (\<lambda>(k, v). row k (f v) @ [NL]) kvs) = unlines (map (\<lambda>(k, v). row k (f v)) kvs)"
  by (induction kvs) auto

lemma block_text: "concat (theme_block other cfg) = unlines (block_rows other cfg)"
  by (simp add: theme_block_def block_rows_def unlines_append unlines_map_row assignment_row)

lemma row_nl_free: "NL \<notin> set k \<Longrightarrow> NL \<notin> set v \<Longrightarrow> NL \<notin> set (row k v)"
  by (simp add: row_def)

lemma role_name_nl_free: "k \<in> set role_names \<Longrightarrow> NL \<notin> set k"
  by (auto simp: role_names_def)

lemma block_rows_nl_free:
  assumes "block_wf other cfg"
  shows "\<forall>r \<in> set (block_rows other cfg). NL \<notin> set r"
  using assms
  by (auto simp: block_wf_def one_line_def block_rows_def list_all_iff row_nl_free
      role_name_nl_free)

lemma row_cr_free: "CR \<notin> set k \<Longrightarrow> CR \<notin> set v \<Longrightarrow> CR \<notin> set (row k v)"
  by (simp add: row_def)

lemma role_name_cr_free: "k \<in> set role_names \<Longrightarrow> CR \<notin> set k"
  by (auto simp: role_names_def)

lemma block_rows_cr_free:
  assumes "block_wf other cfg"
  shows "\<forall>r \<in> set (block_rows other cfg). CR \<notin> set r"
  using assms
  by (auto simp: block_wf_def one_line_def block_rows_def list_all_iff row_cr_free
      role_name_cr_free)

lemma unlines_cr_free: "\<forall>r \<in> set rows. CR \<notin> set r \<Longrightarrow> CR \<notin> set (unlines rows)"
  by (induction rows) auto

lemma concat_readlines: "concat (readlines t) = t"
  by (induction t) (auto split: list.splits)

lemma readlines_lines:
  "\<forall>l \<in> set (readlines t). l \<noteq> [] \<and> NL \<notin> set (butlast l)"
  by (induction t) (auto split: list.splits)

lemma readlines_terminated:
  "\<forall>l \<in> set (butlast (readlines t)). endswith_nl l"
  by (induction t) (auto simp: endswith_nl_def split: list.splits if_splits)

lemma lines_ok_readlines: "lines_ok (readlines t)"
  using readlines_lines [of t] readlines_terminated [of t]
  by (auto simp: lines_ok_def endswith_nl_def)


section \<open>Running the merger twice\<close>

lemma isspace_NL: "isspace NL"
  by (simp add: isspace_def)

lemma strip_nl: "strip (l @ [NL]) = strip l"
proof (cases "\<forall>c \<in> set l. isspace c")
  case True
  then have d1: "dropWhile isspace l = []"
    by (simp add: dropWhile_eq_Nil_conv)
  from True have d2: "dropWhile isspace (l @ [NL]) = []"
    by (simp add: dropWhile_eq_Nil_conv isspace_NL)
  show ?thesis
    unfolding strip_def strip_with_def d1 d2 by simp
next
  case False
  then have d: "dropWhile isspace (l @ [NL]) = dropWhile isspace l @ [NL]"
    by (auto simp: dropWhile_append1)
  show ?thesis
    unfolding strip_def strip_with_def d by (simp add: isspace_NL)
qed

lemma theme_header_nl: "theme_header (l @ [NL]) = theme_header l"
  by (simp add: theme_header_def strip_nl)

lemma theme_header_terminate: "theme_header (terminate l) = theme_header l"
  by (simp add: terminate_def theme_header_nl)

lemma remove_theme_no_header:
  "l \<in> set (remove_theme skip ls) \<Longrightarrow> \<not> theme_header l"
  by (induction ls arbitrary: skip) (auto simp: remove_theme_Cons simp del: remove_theme.simps(2) split: if_splits)

lemma remove_theme_subset:
  "set (remove_theme skip ls) \<subseteq> set ls"
  by (induction ls arbitrary: skip) (auto simp: remove_theme_Cons simp del: remove_theme.simps(2) split: if_splits)

lemma remove_theme_butlast:
  "\<forall>l \<in> set (butlast ls). P l \<Longrightarrow> \<forall>l \<in> set (butlast (remove_theme skip ls)). P l"
proof (induction ls arbitrary: skip)
  case Nil
  then show ?case by simp
next
  case (Cons a ls)
  show ?case
  proof (cases "ls = []")
    case True
    then show ?thesis by (simp add: remove_theme_Cons del: remove_theme.simps(2))
  next
    case False
    with Cons.prems have a: "P a" and r: "\<forall>l \<in> set (butlast ls). P l" by auto
    show ?thesis
      using Cons.IH [OF r] a
      by (auto simp: remove_theme_Cons simp del: remove_theme.simps(2) split: if_splits)
  qed
qed

lemma lines_ok_remove_theme: "lines_ok ls \<Longrightarrow> lines_ok (remove_theme skip ls)"
  using remove_theme_subset [of skip ls] remove_theme_butlast [of ls "\<lambda>l. last l = NL" skip]
  by (auto simp: lines_ok_def)

lemma remove_theme_ident:
  "\<forall>l \<in> set ls. \<not> theme_header l \<Longrightarrow> remove_theme False (ls @ rest) = ls @ remove_theme False rest"
  by (induction ls) (auto simp: remove_theme_Cons simp del: remove_theme.simps(2))

lemma remove_theme_all:
  "\<forall>l \<in> set ls. \<not> other_header l \<Longrightarrow> remove_theme True ls = []"
  by (induction ls) (auto simp: remove_theme_Cons simp del: remove_theme.simps(2))


lemma dropWhile_snoc_keep: "\<not> P c \<Longrightarrow> \<exists>ys. dropWhile P (xs @ [c]) = ys @ [c]"
  by (induction xs) auto

lemma strip_first: "\<not> isspace c \<Longrightarrow> \<exists>t. strip (c # s) = c # t"
proof -
  assume c: "\<not> isspace c"
  obtain ys where "dropWhile isspace (rev s @ [c]) = ys @ [c]"
    using dropWhile_snoc_keep [of isspace c "rev s"] c by blast
  then show ?thesis
    using c by (simp add: strip_def strip_with_def)
qed

lemma not_other_plain: "\<not> isspace c \<Longrightarrow> c \<noteq> CHR ''['' \<Longrightarrow> \<not> other_header (c # s)"
  using strip_first [of c s] by (auto simp: other_header_def startswith_def)

lemma not_other_blank: "\<not> other_header [NL]"
  by (simp add: other_header_def strip_def strip_with_def isspace_NL startswith_def)

lemma header_theme_colors: "theme_header (''[theme.colors]'' @ [NL])"
  unfolding theme_header_nl by code_simp

lemma header_theme: "theme_header (''[theme]'' @ [NL])"
  unfolding theme_header_nl by code_simp

lemma not_header_blank: "\<not> theme_header [NL]"
  by code_simp

lemma not_other_role: "k \<in> set role_names \<Longrightarrow> \<not> other_header (row k v @ [NL])"
  by (auto simp: role_names_def row_def not_other_plain isspace_def)

lemma not_other_fixed:
  "\<not> other_header (row ''name'' v @ [NL])"
  "\<not> other_header (row ''source'' v @ [NL])"
  "\<not> other_header (row ''background'' v @ [NL])"
  "\<not> other_header (row ''foreground'' v @ [NL])"
  by (simp_all add: row_def not_other_plain isspace_def)

lemma remove_theme_block:
  assumes "block_wf other cfg"
  shows "remove_theme False (map (\<lambda>r. r @ [NL]) (block_rows other cfg)) = [[NL]]"
proof -
  let ?rest = "map (\<lambda>r. r @ [NL])
     ([row ''name'' (cfg_name cfg), row ''source'' (cfg_source cfg), [], ''[theme.colors]'']
      @ map (\<lambda>(k, v). row k (fstr other v)) (cfg_colors cfg)
      @ [row ''background'' (fstr other (cfg_background cfg)),
         row ''foreground'' (fstr other (cfg_foreground cfg)), []])"
  have c: "\<forall>l \<in> set (map (\<lambda>r. r @ [NL]) (map (\<lambda>(k, v). row k (fstr other v)) (cfg_colors cfg))).
             \<not> other_header l"
    using assms by (auto simp: block_wf_def list_all_iff not_other_role)
  have h: "\<not> other_header (''[theme.colors]'' @ [NL])"
    using header_theme_colors by (rule header_not_other)
  have "\<forall>l \<in> set ?rest. \<not> other_header l"
    using c h not_other_fixed not_other_blank by auto
  then have r: "remove_theme True ?rest = []" by (rule remove_theme_all)
  have b: "map (\<lambda>r. r @ [NL]) (block_rows other cfg) = [NL] # (''[theme]'' @ [NL]) # ?rest"
    by (simp add: block_rows_def)
  show ?thesis
    unfolding b
    by (simp only: remove_theme_Cons not_header_blank header_theme r simp_thms if_True if_False)
qed

lemma terminate_row:
  assumes "l \<noteq> []" and "NL \<notin> set (butlast l)"
  shows "butlast (terminate l) @ [NL] = terminate l" and "NL \<notin> set (butlast (terminate l))"
proof -
  have e: "terminate l \<noteq> [] \<and> last (terminate l) = NL"
    by (simp add: terminate_def endswith_nl_def)
  then show "butlast (terminate l) @ [NL] = terminate l"
    by (metis append_butlast_last_id)
  show "NL \<notin> set (butlast (terminate l))"
  proof (cases "endswith_nl l")
    case True
    then show ?thesis using assms by (simp add: terminate_def)
  next
    case False
    have "set l = set (butlast l) \<union> {last l}"
      using assms(1) by (metis append_butlast_last_id set_append list.set(1,2) Un_insert_right sup_bot.right_neutral)
    then have "NL \<notin> set l" using assms False by (auto simp: endswith_nl_def)
    then show ?thesis using False by (simp add: terminate_def)
  qed
qed

lemma kept_text:
  assumes "lines_ok ks"
  shows "concat (if ks \<noteq> [] \<and> \<not> endswith_nl (last ks) then ks @ [[NL]] else ks)
           = concat (map terminate ks)"
proof (cases ks rule: rev_cases)
  case Nil
  then show ?thesis by simp
next
  case (snoc ys y)
  have "\<forall>l \<in> set ys. endswith_nl l"
    using assms snoc by (auto simp: lines_ok_def endswith_nl_def)
  then have "map terminate ys = ys"
    by (induction ys) (auto simp: terminate_def)
  then show ?thesis using snoc by (simp add: terminate_def)
qed

lemma unlines_rows: "unlines rows = concat (map (\<lambda>r. r @ [NL]) rows)"
  by (induction rows) auto


lemma kept_rows:
  obtains rows where "concat (kept_lines (readlines text)) = unlines rows"
    and "\<forall>r \<in> set rows. NL \<notin> set r"
    and "\<forall>r \<in> set rows. \<not> theme_header (r @ [NL])"
proof -
  let ?ks = "remove_theme False (readlines text)"
  let ?rows = "map (\<lambda>l. butlast (terminate l)) ?ks"
  have ok: "lines_ok ?ks"
    using lines_ok_readlines by (rule lines_ok_remove_theme)
  then have l: "\<forall>l \<in> set ?ks. l \<noteq> [] \<and> NL \<notin> set (butlast l)"
    by (simp add: lines_ok_def)
  have t: "map (\<lambda>r. r @ [NL]) ?rows = map terminate ?ks"
    using l by (simp add: terminate_row(1))
  have "concat (kept_lines (readlines text)) = concat (map terminate ?ks)"
    using kept_text [OF ok] by (simp add: kept_lines_def Let_def)
  then have a: "concat (kept_lines (readlines text)) = unlines ?rows"
    by (simp only: unlines_rows t)
  have b: "\<forall>r \<in> set ?rows. NL \<notin> set r"
    using l by (simp add: terminate_row(2))
  have "\<forall>l \<in> set ?ks. \<not> theme_header (butlast (terminate l) @ [NL])"
    using l remove_theme_no_header [of _ False "readlines text"]
    by (simp add: terminate_row(1) theme_header_terminate)
  then have c: "\<forall>r \<in> set ?rows. \<not> theme_header (r @ [NL])" by simp
  show ?thesis using that [OF a b c] .
qed

lemma kept_text_cr_free:
  assumes "CR \<notin> set t"
  shows "CR \<notin> set (concat (kept_lines (readlines t)))"
proof -
  have "set (remove_theme False (readlines t)) \<subseteq> set (readlines t)"
    by (rule remove_theme_subset)
  then have "set (concat (remove_theme False (readlines t))) \<subseteq> set (concat (readlines t))"
    by auto
  then have "CR \<notin> set (concat (remove_theme False (readlines t)))"
    using assms by (auto simp: concat_readlines)
  then show ?thesis by (simp add: kept_lines_def Let_def)
qed

text \<open>
  C4, amended. For a theme block whose values do not span lines, the first application
  writes the kept text followed by the block; applied again to that file, the merger
  writes the same kept text, one more blank line, and the same block. The kept text holds
  no theme header, so there is always exactly one theme block; each application adds one
  blank line in front of it.
\<close>

theorem merge_twice:
  assumes "block_wf other cfg"
  shows "update_navitone_config other cfg (DText content) =
           (True, DText (concat (kept_lines (readlines (translate_newlines content)))
                         @ concat (theme_block other cfg)))
       \<and> update_navitone_config other cfg
           (DText (concat (kept_lines (readlines (translate_newlines content)))
                   @ concat (theme_block other cfg))) =
           (True, DText (concat (kept_lines (readlines (translate_newlines content)))
                         @ NL # concat (theme_block other cfg)))
       \<and> (\<forall>l \<in> set (readlines
               (concat (kept_lines (readlines (translate_newlines content))))).
             \<not> theme_header l)"
proof -
  let ?text = "translate_newlines content"
  obtain rows where k: "concat (kept_lines (readlines ?text)) = unlines rows"
    and nl: "\<forall>r \<in> set rows. NL \<notin> set r"
    and nh: "\<forall>r \<in> set rows. \<not> theme_header (r @ [NL])"
    by (rule kept_rows)
  let ?K = "map (\<lambda>r. r @ [NL]) rows"
  let ?B = "map (\<lambda>r. r @ [NL]) (block_rows other cfg)"
  have "CR \<notin> set (concat (kept_lines (readlines ?text)))"
    using translate_newlines_no_cr by (rule kept_text_cr_free)
  then have ck: "CR \<notin> set (unlines rows)" by (simp add: k)
  have cb: "CR \<notin> set (unlines (block_rows other cfg))"
    using block_rows_cr_free [OF assms] by (rule unlines_cr_free)
  have tr: "translate_newlines (unlines rows @ unlines (block_rows other cfg))
            = unlines rows @ unlines (block_rows other cfg)"
    using ck cb by (simp add: translate_newlines_id)
  have rk: "readlines (unlines rows) = ?K"
    using readlines_unlines [OF nl, of "[]"] by simp
  have rb: "readlines (unlines (block_rows other cfg)) = ?B"
    using readlines_unlines [OF block_rows_nl_free [OF assms], of "[]"] by simp
  have r: "readlines (unlines rows @ unlines (block_rows other cfg)) = ?K @ ?B"
    using readlines_unlines [OF nl] rb by simp
  have "\<forall>l \<in> set ?K. \<not> theme_header l" using nh by simp
  then have "remove_theme False (?K @ ?B) = ?K @ remove_theme False ?B"
    by (rule remove_theme_ident)
  then have rm: "remove_theme False (?K @ ?B) = ?K @ [[NL]]"
    by (simp only: remove_theme_block [OF assms])
  have kl: "kept_lines (?K @ ?B) = ?K @ [[NL]]"
    by (simp add: kept_lines_def rm endswith_nl_def)
  have one: "update_navitone_config other cfg (DText content) =
           (True, DText (unlines rows @ unlines (block_rows other cfg)))"
    by (simp add: update_navitone_config_def merge_lines_def k block_text)
  have two: "update_navitone_config other cfg
           (DText (unlines rows @ unlines (block_rows other cfg))) =
           (True, DText (unlines rows @ NL # unlines (block_rows other cfg)))"
    by (simp add: update_navitone_config_def merge_lines_def tr r kl block_text
        unlines_rows [symmetric])
  have three: "\<forall>l \<in> set (readlines (unlines rows)). \<not> theme_header l"
    using nh by (simp add: rk)
  show ?thesis
    unfolding k block_text using one two three by simp
qed

text \<open>
  C4, as stated, fails: starting from an empty destination file, the second application
  does not reproduce the file the first one wrote.
\<close>

theorem merge_not_idempotent:
  "update_navitone_config no_render gray_config
     (snd (update_navitone_config no_render gray_config (DText [])))
   \<noteq> update_navitone_config no_render gray_config (DText [])"
  by code_simp

theorem merge_twice_witness:
  "update_navitone_config no_render gray_config
     (DText (unlines [''[other]'', ''x = 1''] @ concat (theme_block no_render gray_config)))
   = (True, DText (unlines [''[other]'', ''x = 1'']
                    @ NL # concat (theme_block no_render gray_config)))"
proof -
  have w: "block_wf no_render gray_config"
    by code_simp
  have k: "concat (kept_lines (readlines
             (translate_newlines (''[other]'' @ [CR, NL] @ ''x = 1''))))
           = unlines [''[other]'', ''x = 1'']"
    by code_simp
  show ?thesis
    using merge_twice [OF w, of "''[other]'' @ [CR, NL] @ ''x = 1''",
        THEN conjunct2, THEN conjunct1]
    unfolding k .
qed

section \<open>Reading the theme block as a color file\<close>

lemma startswith_Cons: "startswith (c # s) (k # ks) = (c = k \<and> startswith s ks)"
  by (auto simp: startswith_def)

lemma startswith_Nil: "startswith [] (k # ks) = False"
  by (simp add: startswith_def)

lemma record_same_section: "current_section st = x \<Longrightarrow> st\<lparr>current_section := x\<rparr> = st"
  by (cases st) simp

lemma scan_line_inert:
  assumes "current_section st = NoSection" and "\<not> startswith (strip raw) ''[colors.''"
  shows "scan_line st raw = st"
proof -
  have a: "\<not> startswith (strip raw) ''[colors.normal]''"
    using startswith_append [of "strip raw" "''[colors.''" "''normal]''"] assms(2) by auto
  have b: "\<not> startswith (strip raw) ''[colors.bright]''"
    using startswith_append [of "strip raw" "''[colors.''" "''bright]''"] assms(2) by auto
  have c: "\<not> startswith (strip raw) ''[colors.primary]''"
    using startswith_append [of "strip raw" "''[colors.''" "''primary]''"] assms(2) by auto
  show ?thesis
    unfolding scan_line_def Let_def
    by (simp only: a b c assms if_False record_same_section store_def toml_section.case
        split: option.split if_split) simp
qed

lemma foldl_scan_inert:
  "current_section st = NoSection \<Longrightarrow> \<forall>r \<in> set rs. \<not> startswith (strip r) ''[colors.'' \<Longrightarrow>
   foldl scan_line st rs = st"
  by (induction rs) (auto simp: scan_line_inert)

lemma split_on_row: "NL \<notin> set s \<Longrightarrow> split_on NL (s @ NL # rest) = s # split_on NL rest"
  by (induction s) auto

lemma split_on_unlines:
  "\<forall>r \<in> set rows. NL \<notin> set r \<Longrightarrow> split_on NL (unlines rows) = rows @ [[]]"
  by (induction rows) (auto simp: split_on_row)

lemma plain_not_colors:
  "\<not> isspace c \<Longrightarrow> c \<noteq> CHR ''['' \<Longrightarrow> \<not> startswith (strip (c # s)) ''[colors.''"
  using strip_first [of c s] by (auto simp: startswith_Cons)

lemma role_row_not_colors:
  "k \<in> set role_names \<Longrightarrow> \<not> startswith (strip (row k v)) ''[colors.''"
  by (auto simp: role_names_def row_def plain_not_colors isspace_def)

lemma fixed_row_not_colors:
  "\<not> startswith (strip (row ''name'' v)) ''[colors.''"
  "\<not> startswith (strip (row ''source'' v)) ''[colors.''"
  "\<not> startswith (strip (row ''background'' v)) ''[colors.''"
  "\<not> startswith (strip (row ''foreground'' v)) ''[colors.''"
  by (simp_all add: row_def plain_not_colors isspace_def)

lemma header_not_colors:
  "\<not> startswith (strip []) ''[colors.''"
  "\<not> startswith (strip ''[theme]'') ''[colors.''"
  "\<not> startswith (strip ''[theme.colors]'') ''[colors.''"
  by code_simp+

lemma block_rows_inert:
  assumes "block_wf other cfg"
  shows "\<forall>r \<in> set (block_rows other cfg). \<not> startswith (strip r) ''[colors.''"
proof -
  have "\<forall>r \<in> set (map (\<lambda>(k, v). row k (fstr other v)) (cfg_colors cfg)).
          \<not> startswith (strip r) ''[colors.''"
    using assms by (auto simp: block_wf_def list_all_iff role_row_not_colors)
  then show ?thesis
    using fixed_row_not_colors header_not_colors
    by (auto simp: block_rows_def)
qed

lemma parse_block:
  assumes "block_wf other cfg"
  shows "parse_toml_colors (TText (concat (theme_block other cfg))) = ([], [])"
proof -
  have s: "split_on NL (unlines (block_rows other cfg)) = block_rows other cfg @ [[]]"
    using block_rows_nl_free [OF assms] by (rule split_on_unlines)
  have "\<forall>r \<in> set (block_rows other cfg @ [[]]). \<not> startswith (strip r) ''[colors.''"
    using block_rows_inert [OF assms] header_not_colors(1) by simp
  then have "foldl scan_line scan_init (block_rows other cfg @ [[]]) = scan_init"
    by (intro foldl_scan_inert) (simp_all add: scan_init_def)
  then have "scan_file (TText (concat (theme_block other cfg))) = scan_init"
    by (simp add: scan_file_def block_text s)
  then show ?thesis
    by (simp add: parse_toml_colors_def scan_init_def merge_colors_def fill_from_def
        canonical_def)
qed


section \<open>Searching the theme block for background and foreground\<close>

lemma field_at_None: "\<not> startswith s kw \<Longrightarrow> field_at kw s = None"
  by (simp add: field_at_def)

lemma startswith_before_quote:
  assumes "DQ \<notin> set kw" and "startswith (x @ DQ # b) kw"
  shows "startswith x kw"
proof (cases "length kw \<le> length x")
  case True
  then show ?thesis using assms(2) by (simp add: startswith_def)
next
  case False
  then have "take (length kw) (x @ DQ # b) = x @ DQ # take (length kw - Suc (length x)) b"
    by (simp add: take_Cons')
  then have "DQ \<in> set kw" using assms(2) by (simp add: startswith_def) (metis in_set_conv_decomp)
  then show ?thesis using assms(1) by simp
qed

lemma skip_chunk:
  assumes "DQ \<notin> set kw" and "kw \<noteq> []"
  shows "\<not> contains kw a \<Longrightarrow> field_search kw (a @ DQ # b) = field_search kw b"
proof (induction a)
  case Nil
  obtain k ks where kw: "kw = k # ks" using assms(2) by (cases kw) auto
  have "\<not> startswith (DQ # b) kw" using assms(1) by (auto simp: kw startswith_Cons)
  then show ?case by (simp add: field_at_None)
next
  case (Cons c a)
  then have n: "\<not> startswith (c # a) kw" and r: "\<not> contains kw a" by auto
  have "\<not> startswith ((c # a) @ DQ # b) kw"
    using n startswith_before_quote [OF assms(1)] by blast
  then have "field_at kw (c # a @ DQ # b) = None" by (simp add: field_at_None)
  then show ?case using Cons.IH [OF r] by simp
qed

lemma skip_chunks:
  assumes "DQ \<notin> set kw" and "kw \<noteq> []"
  shows "\<forall>a \<in> set chunks. \<not> contains kw a \<Longrightarrow>
         field_search kw (concat (map (\<lambda>a. a @ [DQ]) chunks) @ b) = field_search kw b"
  by (induction chunks) (auto simp: skip_chunk [OF assms])

lemma contains_subset: "contains kw s \<Longrightarrow> set kw \<subseteq> set s"
proof (induction s)
  case Nil
  then show ?case by simp
next
  case (Cons c s)
  show ?case
  proof (cases "startswith (c # s) kw")
    case True
    then have "set kw = set (take (length kw) (c # s))" by (simp add: startswith_def)
    then show ?thesis using set_take_subset by metis
  next
    case False
    then show ?thesis using Cons by auto
  qed
qed

lemma color_string_chars: "color_string s \<Longrightarrow> c \<in> set s \<Longrightarrow> c = CHR ''#'' \<or> ishex c"
  by (cases s) (auto simp: color_string_def list_all_iff)

lemma color_string_form:
  "color_string s \<Longrightarrow> \<exists>h. s = CHR ''#'' # h \<and> length h = 6 \<and> list_all ishex h"
  by (cases s) (auto simp: color_string_def)

lemma color_no_word: "color_string s \<Longrightarrow> CHR ''r'' \<in> set kw \<Longrightarrow> \<not> contains kw s"
  using contains_subset [of kw s] color_string_chars [of s "CHR ''r''"]
  by (auto simp: ishex_def)

lemma color_nl_free: "color_string s \<Longrightarrow> NL \<notin> set s"
  using color_string_chars [of s NL] by (auto simp: ishex_def)

lemma color_cr_free: "color_string s \<Longrightarrow> CR \<notin> set s"
  using color_string_chars [of s CR] by (auto simp: ishex_def)

lemma field_hit:
  assumes "kw \<noteq> []" and "hd kw \<noteq> NL" and "length h = 6" and "list_all ishex h"
  shows "field_search kw (NL # kw @ '' = '' @ DQ # CHR ''#'' # h @ rest) = Some h"
proof -
  obtain k ks where kw: "kw = k # ks" using assms(1) by (cases kw) auto
  have "\<not> startswith (NL # kw @ '' = '' @ DQ # CHR ''#'' # h @ rest) kw"
    using assms(2) by (auto simp: kw startswith_Cons)
  then have a: "field_at kw (NL # kw @ '' = '' @ DQ # CHR ''#'' # h @ rest) = None"
    by (rule field_at_None)
  have "hex6 (h @ rest) = Some h"
    using assms(3,4) by (simp add: hex6_def)
  then have "field_at kw (kw @ '' = '' @ DQ # CHR ''#'' # h @ rest) = Some h"
    by (simp add: field_at_def startswith_def isspace_def isquote_def color_at_def)
  then have "field_search kw (kw @ '' = '' @ DQ # CHR ''#'' # h @ rest) = Some h"
    by (simp add: kw)
  then show ?thesis using a by simp
qed


lemma palette_block_wf:
  assumes "full_palette p" and "one_line nm"
  shows "block_wf other (generate_navitone_config (palette_data nm p))"
  using assms
  by (simp add: block_wf_def one_line_def generate_navitone_config_def palette_data_def
      fstr_def role_names_def full_palette_def color_nl_free color_cr_free)

lemma search_block:
  assumes "full_palette p"
    and "\<not> contains ''background'' nm"
    and "\<not> contains ''foreground'' nm"
  shows "field_search ''background''
           (concat (theme_block other (generate_navitone_config (palette_data nm p))))
         = Some (tl (role_background p))"
    and "field_search ''foreground''
           (concat (theme_block other (generate_navitone_config (palette_data nm p))))
         = Some (tl (role_foreground p))"
proof -
  have cs: "color_string (role_accent p)" "color_string (role_primary p)"
    "color_string (role_secondary p)" "color_string (role_success p)"
    "color_string (role_warning p)" "color_string (role_error p)"
    and cb: "color_string (role_background p)" and cf: "color_string (role_foreground p)"
    using assms(1) by (simp_all add: full_palette_def)
  obtain hb where hb: "role_background p = CHR ''#'' # hb" "length hb = 6" "list_all ishex hb"
    using color_string_form [OF cb] by blast
  obtain hf where hf: "role_foreground p = CHR ''#'' # hf" "length hf = 6" "list_all ishex hf"
    using color_string_form [OF cf] by blast
  let ?chunks = "[NL # ''[theme]'' @ NL # ''name = '', ''omarchy-'' @ nm, NL # ''source = '',
      ''omarchy'', NL # NL # ''[theme.colors]'' @ NL # ''accent = '', role_accent p,
      NL # ''primary = '', role_primary p, NL # ''secondary = '', role_secondary p,
      NL # ''success = '', role_success p, NL # ''warning = '', role_warning p,
      NL # ''error = '', role_error p]"
  let ?text = "concat (theme_block other (generate_navitone_config (palette_data nm p)))"
  have t1: "?text = concat (map (\<lambda>a. a @ [DQ]) ?chunks)
      @ (NL # ''background'' @ '' = '' @ DQ # CHR ''#'' # hb
         @ (DQ # NL # ''foreground = '' @ DQ # role_foreground p @ [DQ, NL, NL]))"
    by (simp add: block_text block_rows_def row_def generate_navitone_config_def
        palette_data_def fstr_def hb)
  have t2: "?text =
      concat (map (\<lambda>a. a @ [DQ]) (?chunks @ [NL # ''background = '', role_background p]))
      @ (NL # ''foreground'' @ '' = '' @ DQ # CHR ''#'' # hf @ [DQ, NL, NL])"
    by (simp add: block_text block_rows_def row_def generate_navitone_config_def
        palette_data_def fstr_def hf)
  have n1: "\<forall>a \<in> set ?chunks. \<not> contains ''background'' a"
    using cs assms(2) by (simp add: startswith_Cons startswith_Nil color_no_word)
  have n2: "\<forall>a \<in> set (?chunks @ [NL # ''background = '', role_background p]).
              \<not> contains ''foreground'' a"
    using cs cb assms(3) by (simp add: startswith_Cons startswith_Nil color_no_word)
  have q: "DQ \<notin> set ''background''" "''background'' \<noteq> []"
    "DQ \<notin> set ''foreground''" "''foreground'' \<noteq> []"
    by simp_all
  have "field_search ''background'' ?text = Some hb"
    unfolding t1
    by (simp only: skip_chunks [OF q(1,2) n1])
       (rule field_hit, simp_all add: hb)
  then show "field_search ''background'' ?text = Some (tl (role_background p))"
    by (simp add: hb)
  have "field_search ''foreground'' ?text = Some hf"
    unfolding t2
    by (simp only: skip_chunks [OF q(3,4) n2])
       (rule field_hit, simp_all add: hf)
  then show "field_search ''foreground'' ?text = Some (tl (role_foreground p))"
    by (simp add: hf)
qed


text \<open>
  C8, as stated, fails: the block of a palette of eight different colors, written into an
  empty destination file and read by the line-oriented extraction, gives the accent
  \<open>#777777\<close>, not the palette's \<open>#6272a4\<close>.
\<close>

theorem block_not_reextracted:
  "update_navitone_config no_render (generate_navitone_config (palette_data ''dracula'' dracula))
     (DText [])
     = (True, DText (concat
         (theme_block no_render (generate_navitone_config (palette_data ''dracula'' dracula)))))
   \<and> map_of (colors (toml_theme ''dracula'' (TText (translate_newlines (concat
     (theme_block no_render (generate_navitone_config (palette_data ''dracula'' dracula))))))))
     ''accent'' = Some (JStr ''#777777'')
   \<and> map_of (colors (palette_data ''dracula'' dracula)) ''accent'' = Some (JStr ''#6272a4'')"
  by code_simp

text \<open>
  C8, amended. For every fully populated palette, serialized into the theme block and
  merged into an empty destination file, and the file written then read by the
  line-oriented extraction: the extractor finds no color at all, since \<open>[theme.colors]\<close>
  is none of the sections it stores, so the six roles come back as the grayscale
  constants; background and foreground come back as they were, found by the regex scan of
  the text, when the theme name holds no line end (newline or carriage return) and
  neither of the words \<open>background\<close> and \<open>foreground\<close>.
\<close>

theorem block_reextraction:
  assumes "full_palette p" and "one_line nm"
    and "\<not> contains ''background'' nm" and "\<not> contains ''foreground'' nm"
  shows "update_navitone_config other (generate_navitone_config (palette_data nm p)) (DText [])
           = (True, DText (concat
               (theme_block other (generate_navitone_config (palette_data nm p)))))
       \<and> parse_toml_colors (TText (translate_newlines (concat
             (theme_block other (generate_navitone_config (palette_data nm p)))))) = ([], [])
       \<and> colors (toml_theme nm (TText (translate_newlines (concat
             (theme_block other (generate_navitone_config (palette_data nm p))))))) =
           [(''accent'', JStr ''#777777''), (''primary'', JStr ''#999999''),
            (''secondary'', JStr ''#BBBBBB''), (''success'', JStr ''#AAAAAA''),
            (''warning'', JStr ''#888888''), (''error'', JStr ''#666666'')]
       \<and> background (toml_theme nm (TText (translate_newlines (concat
             (theme_block other (generate_navitone_config (palette_data nm p)))))))
           = JStr (role_background p)
       \<and> foreground (toml_theme nm (TText (translate_newlines (concat
             (theme_block other (generate_navitone_config (palette_data nm p)))))))
           = JStr (role_foreground p)"
proof -
  let ?cfg = "generate_navitone_config (palette_data nm p)"
  let ?text = "concat (theme_block other ?cfg)"
  have wf: "block_wf other ?cfg"
    using assms(1,2) by (rule palette_block_wf)
  have "CR \<notin> set (unlines (block_rows other ?cfg))"
    using block_rows_cr_free [OF wf] by (rule unlines_cr_free)
  then have tr: "translate_newlines ?text = ?text"
    by (simp add: block_text translate_newlines_id)
  have u: "update_navitone_config other ?cfg (DText []) = (True, DText ?text)"
    by (simp add: update_navitone_config_def merge_lines_def kept_lines_def)
  have pc: "parse_toml_colors (TText ?text) = ([], [])"
    using wf by (rule parse_block)
  have c: "colors (toml_theme nm (TText ?text)) = monochrome"
    by (simp add: toml_theme_colors pc)
  have hb: "role_background p = CHR ''#'' # tl (role_background p)"
    and hf: "role_foreground p = CHR ''#'' # tl (role_foreground p)"
    using assms(1) color_string_form [of "role_background p"]
      color_string_form [of "role_foreground p"]
    by (auto simp: full_palette_def)
  have b: "background (toml_theme nm (TText ?text)) = JStr (role_background p)"
    using hb
    by (simp add: toml_theme_def pc dict_get_def scan_field_def
        search_block(1) [OF assms(1,3,4)])
  have f: "foreground (toml_theme nm (TText ?text)) = JStr (role_foreground p)"
    using hf
    by (simp add: toml_theme_def pc dict_get_def scan_field_def
        search_block(2) [OF assms(1,3,4)])
  show ?thesis
    unfolding tr using u pc c b f by (simp add: monochrome_def)
qed

theorem block_reextraction_witness:
  "update_navitone_config no_render (generate_navitone_config (palette_data ''dracula'' dracula))
     (DText [])
     = (True, DText (concat
         (theme_block no_render (generate_navitone_config (palette_data ''dracula'' dracula)))))
   \<and> colors (toml_theme ''dracula'' (TText (translate_newlines (concat
      (theme_block no_render (generate_navitone_config (palette_data ''dracula'' dracula))))))) =
      [(''accent'', JStr ''#777777''), (''primary'', JStr ''#999999''),
       (''secondary'', JStr ''#BBBBBB''), (''success'', JStr ''#AAAAAA''),
       (''warning'', JStr ''#888888''), (''error'', JStr ''#666666'')]
   \<and> background (toml_theme ''dracula'' (TText (translate_newlines (concat
      (theme_block no_render (generate_navitone_config (palette_data ''dracula'' dracula)))))))
      = JStr ''#282a36''
   \<and> foreground (toml_theme ''dracula'' (TText (translate_newlines (concat
      (theme_block no_render (generate_navitone_config (palette_data ''dracula'' dracula)))))))
      = JStr ''#f8f8f2''"
proof -
  have a: "full_palette dracula" by code_simp
  have b: "one_line ''dracula''" by code_simp
  have c: "\<not> contains ''background'' ''dracula''" by code_simp
  have d: "\<not> contains ''foreground'' ''dracula''" by code_simp
  have e: "role_background dracula = ''#282a36''" "role_foreground dracula = ''#f8f8f2''"
    by (simp_all add: dracula_def)
  show ?thesis
    using block_reextraction [OF a b c d, of no_render] unfolding e by blast
qed

end
